theory Spec2Isabelle
  imports Main "HOL-Library.AList"
begin

section \<open>Python strings\<close>

text \<open>
  Text is a list of code points below 256; the string methods of Python that the
  repository uses are written out here with the behaviour of CPython.
\<close>

definition NL :: char where
  "NL = CHR 0x0A"

definition is_space :: "char \<Rightarrow> bool" where
  \<comment> \<open>\<open>str.isspace\<close> and the class \<open>\s\<close> of \<open>re\<close>, on code points below 256\<close>
  "is_space c = (c \<in> set [CHR 0x09, CHR 0x0A, CHR 0x0B, CHR 0x0C, CHR 0x0D, CHR 0x1C,
     CHR 0x1D, CHR 0x1E, CHR 0x1F, CHR 0x20, CHR 0x85, CHR 0xA0])"

definition py_strip :: "string \<Rightarrow> string" where
  \<comment> \<open>\<open>s.strip()\<close>\<close>
  "py_strip s = rev (dropWhile is_space (rev (dropWhile is_space s)))"

definition startswith :: "string \<Rightarrow> string \<Rightarrow> bool" where
  \<comment> \<open>\<open>s.startswith(p)\<close>\<close>
  "startswith s p = (take (length p) s = p)"

fun split_chr :: "char \<Rightarrow> string \<Rightarrow> string list" where
  \<comment> \<open>\<open>s.split(sep)\<close> for a separator of one character: never an empty list\<close>
  "split_chr sep [] = [[]]"
| "split_chr sep (c # cs) =
     (if c = sep then [] # split_chr sep cs
      else (case split_chr sep cs of [] \<Rightarrow> [[c]] | l # ls \<Rightarrow> (c # l) # ls))"

fun split_ws_from :: "string \<Rightarrow> string \<Rightarrow> string list" where
  \<comment> \<open>the scan of \<open>s.split()\<close>: the first argument is the word read so far\<close>
  "split_ws_from cur [] = (if cur = [] then [] else [cur])"
| "split_ws_from cur (c # cs) =
     (if is_space c then (if cur = [] then split_ws_from [] cs else cur # split_ws_from [] cs)
      else split_ws_from (cur @ [c]) cs)"

definition split_ws :: "string \<Rightarrow> string list" where
  \<comment> \<open>\<open>s.split()\<close>: the maximal runs of non-whitespace, in order\<close>
  "split_ws s = split_ws_from [] s"

fun py_join :: "string \<Rightarrow> string list \<Rightarrow> string" where
  \<comment> \<open>\<open>sep.join(xs)\<close>\<close>
  "py_join sep [] = []"
| "py_join sep [x] = x"
| "py_join sep (x # y # ys) = x @ sep @ py_join sep (y # ys)"

definition py_lower_chr :: "char \<Rightarrow> char" where
  "py_lower_chr c =
     (let n = (of_char c :: nat)
      in if (65 \<le> n \<and> n \<le> 90) \<or> (192 \<le> n \<and> n \<le> 222 \<and> n \<noteq> 215) then char_of (n + 32) else c)"

definition py_lower :: "string \<Rightarrow> string" where
  \<comment> \<open>\<open>s.lower()\<close>\<close>
  "py_lower s = map py_lower_chr s"

section \<open>The summarizer: \<open>llm_summarizer.py\<close>\<close>

subsection \<open>\<open>LLM_Summarize._chunk_text\<close>\<close>

text \<open>
  The tokenizer is the external collaborator \<open>self.tokenizer\<close>: \<open>encode\<close> gives the
  token ids of one word, and the loop only uses how many there are.
\<close>

fun chunk_loop ::
  "(string \<Rightarrow> nat list) \<Rightarrow> int \<Rightarrow> string list \<Rightarrow> string list \<times> string list \<times> int
     \<Rightarrow> string list \<times> string list \<times> int" where
  \<comment> \<open>the \<open>for word in words\<close> loop on \<open>(chunks, current_chunk, current_length)\<close>\<close>
  "chunk_loop encode max_length [] st = st"
| "chunk_loop encode max_length (word # words) (chunks, current_chunk, current_length) =
     (let word_length = int (length (encode word))
      in if current_length + word_length > max_length
         then chunk_loop encode max_length words
                (chunks @ [py_join '' '' current_chunk], [word], word_length)
         else chunk_loop encode max_length words
                (chunks, current_chunk @ [word], current_length + word_length))"

definition chunk_text :: "(string \<Rightarrow> nat list) \<Rightarrow> string \<Rightarrow> int \<Rightarrow> string list" where
  "chunk_text encode text max_length =
     (case chunk_loop encode max_length (split_ws text) ([], [], 0) of
        (chunks, current_chunk, current_length) \<Rightarrow>
          if current_chunk \<noteq> [] then chunks @ [py_join '' '' current_chunk] else chunks)"

definition default_max_length :: int where
  \<comment> \<open>the default of the parameter \<open>max_length\<close>, the only value the repository passes\<close>
  "default_max_length = 1000"

subsection \<open>\<open>LLM_Summarize._preprocess_code\<close>\<close>

fun collapse_blank_lines :: "string \<Rightarrow> string" where
  \<comment> \<open>\<open>re.sub(r'\n\s*\n', '\n', code)\<close>: a newline, the whitespace after it up to the last
      newline of that whitespace run, becomes one newline; the scan goes on after the match\<close>
  "collapse_blank_lines [] = []"
| "collapse_blank_lines (c # cs) =
     (if c = NL \<and> NL \<in> set (takeWhile is_space cs)
      then NL # collapse_blank_lines
             (drop (length (takeWhile is_space cs)
                      - length (takeWhile (\<lambda>d. d \<noteq> NL) (rev (takeWhile is_space cs)))) cs)
      else c # collapse_blank_lines cs)"

fun cut_at :: "string \<Rightarrow> string \<Rightarrow> string" where
  \<comment> \<open>the text before the first occurrence of the marker\<close>
  "cut_at marker [] = []"
| "cut_at marker (c # cs) = (if startswith (c # cs) marker then [] else c # cut_at marker cs)"

definition strip_line_comments :: "string \<Rightarrow> string \<Rightarrow> string" where
  \<comment> \<open>\<open>re.sub(marker + r'.*$', '', code, flags=re.MULTILINE)\<close>: the dot stops at a newline\<close>
  "strip_line_comments marker code = py_join [NL] (map (cut_at marker) (split_chr NL code))"

fun after_first :: "string \<Rightarrow> string \<Rightarrow> string option" where
  \<comment> \<open>the text after the first occurrence of the marker, if there is one\<close>
  "after_first marker [] = None"
| "after_first marker (c # cs) =
     (if startswith (c # cs) marker then Some (drop (length marker - 1) cs)
      else after_first marker cs)"

function strip_block_comments :: "string \<Rightarrow> string" where
  \<comment> \<open>\<open>re.sub(r'/\*.*?\*/', '', code, flags=re.DOTALL)\<close>: from an opener to the nearest closer\<close>
  "strip_block_comments [] = []"
| "strip_block_comments (c # cs) =
     (if startswith (c # cs) ''/*''
      then (case after_first ''*/'' (drop 1 cs) of
              None \<Rightarrow> c # strip_block_comments cs
            | Some rest \<Rightarrow> strip_block_comments rest)
      else c # strip_block_comments cs)"
  by pat_completeness auto
termination
proof (relation "measure length")
  fix c :: char and cs rest :: string
  assume "after_first ''*/'' (drop 1 cs) = Some rest"
  moreover have "after_first marker s = Some r \<Longrightarrow> length r \<le> length s"
    for marker s r
    by (induction s) (auto split: if_splits)
  ultimately have "length rest \<le> length (drop 1 cs)" by blast
  then show "(rest, c # cs) \<in> measure length" by simp
qed auto

definition preprocess_code :: "string \<Rightarrow> string" where
  "preprocess_code code =
     (let code1 = collapse_blank_lines code;
          code2 = strip_line_comments ''#'' code1;
          code3 = strip_line_comments ''//'' code2;
          code4 = strip_block_comments code3
      in py_join [NL] (filter (\<lambda>line. py_strip line \<noteq> []) (split_chr NL code4)))"

subsection \<open>\<open>LLM_Summarize._format_as_html\<close>\<close>

fun split_str_from :: "string \<Rightarrow> string \<Rightarrow> string \<Rightarrow> string list" where
  \<comment> \<open>the scan of \<open>s.split(sep)\<close>; the second argument is the piece read so far\<close>
  "split_str_from sep cur [] = [cur]"
| "split_str_from sep cur (c # cs) =
     (if sep \<noteq> [] \<and> startswith (c # cs) sep
      then cur # split_str_from sep [] (drop (length sep - 1) cs)
      else split_str_from sep (cur @ [c]) cs)"

definition split_str :: "string \<Rightarrow> string \<Rightarrow> string list" where
  "split_str sep s = split_str_from sep [] s"

fun replace_str :: "string \<Rightarrow> string \<Rightarrow> string \<Rightarrow> string" where
  \<comment> \<open>\<open>s.replace(old, new)\<close> for a non-empty \<open>old\<close>\<close>
  "replace_str old new [] = []"
| "replace_str old new (c # cs) =
     (if old \<noteq> [] \<and> startswith (c # cs) old
      then new @ replace_str old new (drop (length old - 1) cs)
      else c # replace_str old new cs)"

definition emphasize :: "string \<Rightarrow> string \<Rightarrow> string" where
  \<comment> \<open>\<open>para.replace(term, '<strong>' + term + '</strong>')\<close>\<close>
  "emphasize term para = replace_str term (''<strong>'' @ term @ ''</strong>'') para"

definition format_paragraph :: "nat \<Rightarrow> string \<Rightarrow> string" where
  "format_paragraph i para =
     (if i = 0 then ''<h1>'' @ para @ ''</h1>''
      else ''<p>''
           @ emphasize ''Components'' (emphasize ''Architecture'' (emphasize ''Technologies''
               (emphasize ''Features'' (emphasize ''Project'' para))))
           @ ''</p>'')"

definition format_as_html :: "string \<Rightarrow> string" where
  "format_as_html text =
     (let paragraphs = split_str [NL, NL] text;
          formatted_paragraphs = map (\<lambda>(i, para). format_paragraph i para)
                                     (zip [0 ..< length paragraphs] paragraphs)
      in [NL] @ ''        <div style='' @ [CHR 0x22]
         @ ''font-family: Arial, sans-serif; line-height: 1.6; max-width: 800px; margin: 0 auto; padding: 20px;''
         @ [CHR 0x22] @ ''>'' @ [NL]
         @ ''            <style>'' @ [NL]
         @ ''                h1 { color: #2c3e50; margin-bottom: 20px; }'' @ [NL]
         @ ''                p { color: #34495e; margin-bottom: 15px; }'' @ [NL]
         @ ''                strong { color: #2980b9; }'' @ [NL]
         @ ''            </style>'' @ [NL]
         @ ''            '' @ concat formatted_paragraphs @ [NL]
         @ ''        </div>'' @ [NL]
         @ ''        '')"

subsection \<open>Values, errors and effects\<close>

datatype pyval = PNone | PBool bool | PInt int | PStr string

type_synonym pydict = "(string \<times> pyval) list"

fun truthy :: "pyval \<Rightarrow> bool" where
  \<comment> \<open>the truth value Python gives an object in \<open>if\<close>, \<open>and\<close>, \<open>not\<close>\<close>
  "truthy PNone = False"
| "truthy (PBool b) = b"
| "truthy (PInt n) = (n \<noteq> 0)"
| "truthy (PStr s) = (s \<noteq> [])"

datatype error = KeyError string | ValueError string | OSError string | RuntimeError string

fun str_of_error :: "error \<Rightarrow> string" where
  \<comment> \<open>\<open>str(e)\<close>; a \<open>KeyError\<close> prints the key quoted\<close>
  "str_of_error (KeyError k) = [CHR 0x27] @ k @ [CHR 0x27]"
| "str_of_error (ValueError m) = m"
| "str_of_error (OSError m) = m"
| "str_of_error (RuntimeError m) = m"

text \<open>
  Every call that leaves the process is an event: the trace of a run is the list of its
  events in order. A computation gives its result or the exception it raised, and its trace.
\<close>

datatype event =
    MagicFromFile string
  | GetSize string
  | Stat string
  | ReadText string
  | Walk string
  | ModelCall string int int
  | CacheExists string
  | CacheLoad string
  | CacheDump string "pydict list" int
  | MkDtemp
  | CloneFrom string string

type_synonym 'a io = "(error + 'a) \<times> event list"

definition io_return :: "'a \<Rightarrow> 'a io" where
  "io_return x = (Inr x, [])"

definition io_raise :: "error \<Rightarrow> 'a io" where
  "io_raise e = (Inl e, [])"

definition io_call :: "event \<Rightarrow> error + 'a \<Rightarrow> 'a io" where
  \<comment> \<open>one call of a collaborator: it is logged, and it returns or raises\<close>
  "io_call ev r = (r, [ev])"

definition io_bind :: "'a io \<Rightarrow> ('a \<Rightarrow> 'b io) \<Rightarrow> 'b io" where
  \<comment> \<open>sequencing: an exception skips the rest\<close>
  "io_bind m f =
     (case m of
        (Inl e, t) \<Rightarrow> (Inl e, t)
      | (Inr x, t) \<Rightarrow> (case f x of (r, t') \<Rightarrow> (r, t @ t')))"

definition io_catch :: "'a io \<Rightarrow> (error \<Rightarrow> 'a io) \<Rightarrow> 'a io" where
  \<comment> \<open>\<open>try: m except Exception as e: h e\<close>\<close>
  "io_catch m h =
     (case m of
        (Inl e, t) \<Rightarrow> (case h e of (r, t') \<Rightarrow> (r, t @ t'))
      | (Inr x, t) \<Rightarrow> (Inr x, t))"

subsection \<open>\<open>LLM_Summarize.summarize_code\<close> and \<open>summarize_repo\<close>\<close>

text \<open>
  \<open>summarizer\<close> is the Hugging Face pipeline together with the selection
  \<open>[0]['summary_text']\<close> of its answer, called with the text, \<open>max_length\<close> and
  \<open>min_length\<close>; \<open>tokenizer\<close> is \<open>self.tokenizer.encode\<close>.
\<close>

record llm_summarize =
  tokenizer :: "string \<Rightarrow> nat list"
  summarizer :: "string \<Rightarrow> int \<Rightarrow> int \<Rightarrow> error + string"

fun summarize_chunks :: "llm_summarize \<Rightarrow> string list \<Rightarrow> string list io" where
  \<comment> \<open>the \<open>for chunk in chunks\<close> loop of \<open>summarize_code\<close>\<close>
  "summarize_chunks L [] = io_return []"
| "summarize_chunks L (chunk # chunks) =
     io_bind (io_call (ModelCall chunk 46 30) (summarizer L chunk 46 30)) (\<lambda>summary.
     io_bind (summarize_chunks L chunks) (\<lambda>summaries.
     io_return (summary # summaries)))"

definition error_summary :: string where
  "error_summary = ''Error generating summary''"

definition summarize_code :: "llm_summarize \<Rightarrow> string \<Rightarrow> string io" where
  "summarize_code L code =
     io_catch
       (if py_strip code = [] then io_return ''Empty file''
        else let code' = preprocess_code code
             in if length (split_chr NL code') \<le> 1
                then io_return ''Single line file - skipping summary''
                else io_bind (summarize_chunks L (chunk_text (tokenizer L) code' default_max_length))
                       (\<lambda>summaries. io_return (py_join '' '' summaries)))
       (\<lambda>e. io_return error_summary)"

fun file_summaries_loop :: "llm_summarize \<Rightarrow> string list \<Rightarrow> string list io" where
  \<comment> \<open>the \<open>for code in code_list\<close> loop of \<open>summarize_repo\<close>\<close>
  "file_summaries_loop L [] = io_return []"
| "file_summaries_loop L (code # code_list) =
     io_bind (summarize_code L code) (\<lambda>summary.
     io_bind (file_summaries_loop L code_list) (\<lambda>file_summaries.
     io_return (if summary \<noteq> [] \<and> summary \<noteq> error_summary
                then summary # file_summaries else file_summaries)))"

definition no_valid_files :: string where
  "no_valid_files = ''<p>No valid code files found to summarize.</p>''"

definition summarize_repo :: "llm_summarize \<Rightarrow> string list \<Rightarrow> string io" where
  "summarize_repo L code_list =
     io_catch
       (io_bind (file_summaries_loop L code_list) (\<lambda>file_summaries.
          if file_summaries = [] then io_return no_valid_files
          else let combined_summaries = py_join [NL, NL] file_summaries
               in io_bind (io_call (ModelCall combined_summaries 500 100)
                             (summarizer L combined_summaries 500 100))
                    (\<lambda>final_summary. io_return (format_as_html final_summary))))
       (\<lambda>e. io_return (''<p>Error generating repository summary: '' @ str_of_error e @ ''</p>''))"

section \<open>The scraper: \<open>scrapper.py\<close>\<close>

subsection \<open>Paths: \<open>pathlib\<close> and \<open>os.path\<close> on POSIX\<close>

definition rfind_chr :: "char \<Rightarrow> string \<Rightarrow> int" where
  \<comment> \<open>\<open>s.rfind(c)\<close>: the last index of the character, or -1\<close>
  "rfind_chr c s =
     (if c \<in> set s then int (length s) - 1 - int (length (takeWhile (\<lambda>d. d \<noteq> c) (rev s)))
      else - 1)"

definition path_root :: "string \<Rightarrow> string" where
  "path_root p =
     (if startswith p ''//'' \<and> \<not> startswith p ''///'' then ''//''
      else if startswith p ''/'' then ''/'' else [])"

definition path_components :: "string \<Rightarrow> string list" where
  "path_components p = filter (\<lambda>x. x \<noteq> [] \<and> x \<noteq> ''.'') (split_chr (CHR ''/'') p)"

definition path_parts :: "string \<Rightarrow> string list" where
  \<comment> \<open>\<open>Path(p).parts\<close>\<close>
  "path_parts p = (if path_root p = [] then [] else [path_root p]) @ path_components p"

definition path_name :: "string \<Rightarrow> string" where
  \<comment> \<open>\<open>Path(p).name\<close>\<close>
  "path_name p = (if path_components p = [] then [] else last (path_components p))"

definition path_suffix :: "string \<Rightarrow> string" where
  \<comment> \<open>\<open>Path(p).suffix\<close>: from the last dot of the name, unless it is first or last\<close>
  "path_suffix p =
     (let name = path_name p; i = rfind_chr (CHR ''.'') name
      in if 0 < i \<and> i < int (length name) - 1 then drop (nat i) name else [])"

definition splitext_ext :: "string \<Rightarrow> string" where
  \<comment> \<open>\<open>os.path.splitext(p)[1]\<close>: from the last dot of the last component, unless only dots
      come before it there\<close>
  "splitext_ext p =
     (let sepIndex = rfind_chr (CHR ''/'') p; dotIndex = rfind_chr (CHR ''.'') p
      in if dotIndex > sepIndex
            \<and> list_ex (\<lambda>c. c \<noteq> CHR ''.'')
                 (take (nat (dotIndex - (sepIndex + 1))) (drop (nat (sepIndex + 1)) p))
         then drop (nat dotIndex) p else [])"

definition path_join :: "string \<Rightarrow> string \<Rightarrow> string" where
  \<comment> \<open>\<open>os.path.join(a, b)\<close>\<close>
  "path_join a b =
     (if startswith b ''/'' then b
      else if a = [] \<or> last a = CHR ''/'' then a @ b
      else a @ ''/'' @ b)"

subsection \<open>Records as dictionaries\<close>

definition dict_index :: "pydict \<Rightarrow> string \<Rightarrow> pyval io" where
  \<comment> \<open>\<open>d[k]\<close>\<close>
  "dict_index d k = (case map_of d k of None \<Rightarrow> io_raise (KeyError k) | Some v \<Rightarrow> io_return v)"

definition dict_get :: "pydict \<Rightarrow> string \<Rightarrow> pyval" where
  \<comment> \<open>\<open>d.get(k)\<close>\<close>
  "dict_get d k = (case map_of d k of None \<Rightarrow> PNone | Some v \<Rightarrow> v)"

definition dict_set :: "pydict \<Rightarrow> string \<Rightarrow> pyval \<Rightarrow> pydict" where
  \<comment> \<open>\<open>d[k] = v\<close>\<close>
  "dict_set d k v = AList.update k v d"

subsection \<open>The collaborators of the scraper\<close>

text \<open>
  \<open>stdlib\<close> holds the pure library functions the scraper calls: \<open>hashlib.md5(s.encode()).hexdigest()\<close>
  and \<open>os.path.relpath\<close> (whose second argument may be \<open>None\<close>). \<open>env\<close> is the world at
  the time of the call: the file system, libmagic, the cache directory, the network.
\<close>

record stdlib =
  md5_hexdigest :: "string \<Rightarrow> string"
  relpath :: "string \<Rightarrow> string option \<Rightarrow> string"

datatype cache_doc = CacheDoc "pydict list option" "int option"

record env =
  magic_from_file :: "string \<Rightarrow> error + string"
  getsize :: "string \<Rightarrow> error + int"
  stat_size :: "string \<Rightarrow> error + int"
  read_text :: "string \<Rightarrow> error + string"
  walk_files :: "string \<Rightarrow> string list"
  cache_exists :: "string \<Rightarrow> bool"
  cache_load :: "string \<Rightarrow> error + cache_doc"
  cache_dump :: "string \<Rightarrow> error + unit"
  mkdtemp :: "error + string"
  clone_from :: "string \<Rightarrow> string \<Rightarrow> error + unit"

record github_scraper =
  temp_dir :: "string option"
  repo_path :: "string option"
  cache_dir :: string
  llm :: llm_summarize

subsection \<open>The cache\<close>

definition get_cache_key :: "stdlib \<Rightarrow> github_scraper \<Rightarrow> string \<Rightarrow> string" where
  "get_cache_key H S repo_url = md5_hexdigest H repo_url"

definition cache_file_of :: "stdlib \<Rightarrow> github_scraper \<Rightarrow> string \<Rightarrow> string" where
  \<comment> \<open>\<open>os.path.join(self.cache_dir, f"{cache_key}.json")\<close>\<close>
  "cache_file_of H S repo_url = path_join (cache_dir S) (get_cache_key H S repo_url @ ''.json'')"

definition doc_summaries :: "cache_doc \<Rightarrow> pydict list io" where
  \<comment> \<open>\<open>data['summaries']\<close>\<close>
  "doc_summaries data =
     (case data of CacheDoc None _ \<Rightarrow> io_raise (KeyError ''summaries'')
                 | CacheDoc (Some v) _ \<Rightarrow> io_return v)"

definition doc_total_files :: "cache_doc \<Rightarrow> int io" where
  \<comment> \<open>\<open>data['total_files']\<close>\<close>
  "doc_total_files data =
     (case data of CacheDoc _ None \<Rightarrow> io_raise (KeyError ''total_files'')
                 | CacheDoc _ (Some n) \<Rightarrow> io_return n)"

definition get_cached_summaries ::
  "stdlib \<Rightarrow> env \<Rightarrow> github_scraper \<Rightarrow> string \<Rightarrow> (pydict list \<times> int) option io" where
  "get_cached_summaries H E S repo_url =
     (let cache_file = cache_file_of H S repo_url
      in io_bind (io_call (CacheExists cache_file) (Inr (cache_exists E cache_file))) (\<lambda>exists.
         if exists
         then io_catch
                (io_bind (io_call (CacheLoad cache_file) (cache_load E cache_file)) (\<lambda>data.
                 io_bind (doc_summaries data) (\<lambda>summaries.
                 io_bind (doc_total_files data) (\<lambda>total_files.
                 io_return (Some (summaries, total_files))))))
                (\<lambda>e. io_return None)
         else io_return None))"

definition save_to_cache ::
  "stdlib \<Rightarrow> env \<Rightarrow> github_scraper \<Rightarrow> string \<Rightarrow> pydict list \<Rightarrow> int \<Rightarrow> unit io" where
  "save_to_cache H E S repo_url summaries total_files =
     (let cache_file = cache_file_of H S repo_url
      in io_catch (io_call (CacheDump cache_file summaries total_files) (cache_dump E cache_file))
           (\<lambda>e. io_return ()))"

subsection \<open>Acquisition\<close>

definition clone_repository :: "env \<Rightarrow> github_scraper \<Rightarrow> string \<Rightarrow> github_scraper \<times> unit io" where
  \<comment> \<open>the scraper after the call, and the outcome: an exception is raised again\<close>
  "clone_repository E S repo_url =
     (case mkdtemp E of
        Inl e \<Rightarrow> (S, (Inl e, [MkDtemp]))
      | Inr d \<Rightarrow>
          (case clone_from E repo_url d of
             Inl e \<Rightarrow> (S\<lparr>temp_dir := Some d\<rparr>, (Inl e, [MkDtemp, CloneFrom repo_url d]))
           | Inr u \<Rightarrow> (S\<lparr>temp_dir := Some d, repo_path := Some d\<rparr>,
                        (Inr (), [MkDtemp, CloneFrom repo_url d]))))"

subsection \<open>Classification and filtering\<close>

definition get_file_type :: "env \<Rightarrow> string \<Rightarrow> string io" where
  "get_file_type E file_path =
     io_catch (io_call (MagicFromFile file_path) (magic_from_file E file_path))
       (\<lambda>e. io_return ''application/octet-stream'')"

definition is_text_mime :: "string \<Rightarrow> bool" where
  \<comment> \<open>\<open>mime.startswith('text/') or mime in ['application/json', 'application/xml']\<close>\<close>
  "is_text_mime mime =
     (startswith mime ''text/'' \<or> mime \<in> set [''application/json'', ''application/xml''])"

definition is_text_file :: "env \<Rightarrow> string \<Rightarrow> bool io" where
  "is_text_file E file_path =
     io_catch
       (io_bind (get_file_type E file_path) (\<lambda>mime. io_return (is_text_mime mime)))
       (\<lambda>e. io_return False)"

definition skip_dirs :: "string list" where
  "skip_dirs = [''.git'', ''node_modules'', ''__pycache__'', ''venv'', ''env'', ''dist'', ''build'',
     ''target'', ''.idea'', ''.vscode'', ''coverage'', ''docs'', ''tests'', ''test'']"

definition skip_extensions :: "string list" where
  "skip_extensions = [''.min.js'', ''.min.css'', ''.map'', ''.lock'', ''.log'', ''.sqlite'', ''.db'',
     ''.pyc'', ''.pyo'', ''.pyd'', ''.so'', ''.dll'', ''.dylib'']"

definition has_hidden_part :: "string \<Rightarrow> bool" where
  \<comment> \<open>\<open>any(part.startswith('.') for part in Path(file_path).parts)\<close>\<close>
  "has_hidden_part file_path = list_ex (\<lambda>part. startswith part ''.'') (path_parts file_path)"

definition in_skip_dir :: "string \<Rightarrow> bool" where
  \<comment> \<open>\<open>any(skip_dir in Path(file_path).parts for skip_dir in skip_dirs)\<close>\<close>
  "in_skip_dir file_path = list_ex (\<lambda>skip_dir. skip_dir \<in> set (path_parts file_path)) skip_dirs"

definition has_skip_extension :: "string \<Rightarrow> bool" where
  \<comment> \<open>\<open>Path(file_path).suffix.lower() in skip_extensions\<close>\<close>
  "has_skip_extension file_path = (py_lower (path_suffix file_path) \<in> set skip_extensions)"

definition size_over_limit :: "env \<Rightarrow> string \<Rightarrow> bool io" where
  \<comment> \<open>the \<open>try\<close> around \<open>os.path.getsize\<close>: true where the source returns \<open>True\<close> from it\<close>
  "size_over_limit E file_path =
     io_catch
       (io_bind (io_call (GetSize file_path) (getsize E file_path)) (\<lambda>size.
        io_return (size > 100 * 1024)))
       (\<lambda>e. io_return True)"

definition should_skip_file :: "env \<Rightarrow> string \<Rightarrow> bool io" where
  "should_skip_file E file_path =
     (if has_hidden_part file_path then io_return True
      else io_bind (is_text_file E file_path) (\<lambda>is_text.
        if \<not> is_text then io_return True
        else if in_skip_dir file_path then io_return True
        else io_bind (size_over_limit E file_path) (\<lambda>over.
          if over then io_return True
          else if has_skip_extension file_path then io_return True
          else io_return False)))"

subsection \<open>\<open>GitHubScraper.get_file_summary\<close>\<close>

definition is_code_line :: "string \<Rightarrow> bool" where
  \<comment> \<open>\<open>l.strip() and not l.strip().startswith(('#', '//', '/*', '*', '*/'))\<close>\<close>
  "is_code_line l =
     (py_strip l \<noteq> [] \<and> \<not> list_ex (startswith (py_strip l)) [''#'', ''//'', ''/*'', ''*'', ''*/''])"

definition language_of_ext :: "string \<Rightarrow> string" where
  \<comment> \<open>the \<open>if ext in [...] / elif\<close> chain\<close>
  "language_of_ext ext =
     (if ext \<in> set [''.py''] then ''Python''
      else if ext \<in> set [''.js'', ''.jsx''] then ''JavaScript''
      else if ext \<in> set [''.ts'', ''.tsx''] then ''TypeScript''
      else if ext \<in> set [''.java''] then ''Java''
      else if ext \<in> set [''.cpp'', ''.cc'', ''.cxx''] then ''C++''
      else if ext \<in> set [''.c''] then ''C''
      else if ext \<in> set [''.go''] then ''Go''
      else if ext \<in> set [''.rb''] then ''Ruby''
      else if ext \<in> set [''.html'', ''.htm''] then ''HTML''
      else if ext \<in> set [''.css''] then ''CSS''
      else if ext \<in> set [''.md''] then ''Markdown''
      else if ext \<in> set [''.json''] then ''JSON''
      else if ext \<in> set [''.xml''] then ''XML''
      else if ext \<in> set [''.yaml'', ''.yml''] then ''YAML''
      else ''Unknown'')"

definition too_short_summary :: string where
  "too_short_summary = ''File too short - skipping summary''"

definition text_file_summary ::
  "github_scraper \<Rightarrow> string \<Rightarrow> pydict \<Rightarrow> string \<Rightarrow> pydict io" where
  \<comment> \<open>the body of \<open>with open(...) as f\<close>, from the content read\<close>
  "text_file_summary S file_path summary content =
     (let lines = split_chr NL content
      in if length lines \<le> 3
         then io_return (dict_set summary ''summary'' (PStr too_short_summary))
         else let loc = int (length (filter is_code_line lines));
                  summary1 = dict_set summary ''loc'' (PInt loc)
              in io_bind
                   (if loc > 5
                    then io_bind (summarize_code (llm S) content) (\<lambda>text.
                         io_return (dict_set summary1 ''summary'' (PStr text)))
                    else io_return summary1) (\<lambda>summary2.
                 let ext = py_lower (splitext_ext file_path)
                 in io_return (dict_set summary2 ''language'' (PStr (language_of_ext ext)))))"

definition get_file_summary :: "stdlib \<Rightarrow> env \<Rightarrow> github_scraper \<Rightarrow> string \<Rightarrow> pydict io" where
  "get_file_summary H E S file_path =
     io_catch
       (io_bind (io_call (Stat file_path) (stat_size E file_path)) (\<lambda>file_size.
        io_bind (get_file_type E file_path) (\<lambda>file_type.
        io_bind (is_text_file E file_path) (\<lambda>is_text.
        let summary = [(''path'', PStr (relpath H file_path (repo_path S))),
                       (''size'', PInt file_size),
                       (''type'', PStr file_type),
                       (''is_text'', PBool is_text),
                       (''summary'', PNone)]
        in if is_text
           then io_bind (io_call (ReadText file_path) (read_text E file_path))
                  (text_file_summary S file_path summary)
           else io_return summary))))
       (\<lambda>e. io_return [(''path'', PStr (relpath H file_path (repo_path S))),
                        (''error'', PStr (str_of_error e))])"

subsection \<open>\<open>GitHubScraper.get_all_files\<close> and \<open>analyze_repository\<close>\<close>

definition not_cloned :: error where
  "not_cloned = ValueError ''Repository not cloned. Call clone_repository first.''"

fun keep_files :: "env \<Rightarrow> string list \<Rightarrow> string list io" where
  \<comment> \<open>the loops of \<open>get_all_files\<close> over the paths that \<open>os.walk\<close> yields, joined\<close>
  "keep_files E [] = io_return []"
| "keep_files E (file_path # rest) =
     io_bind (should_skip_file E file_path) (\<lambda>skip.
     io_bind (keep_files E rest) (\<lambda>files_to_analyze.
     io_return (if \<not> skip then file_path # files_to_analyze else files_to_analyze)))"

definition get_all_files :: "env \<Rightarrow> github_scraper \<Rightarrow> string list io" where
  "get_all_files E S =
     (case repo_path S of
        None \<Rightarrow> io_raise not_cloned
      | Some root \<Rightarrow>
          if root = [] then io_raise not_cloned
          else io_bind (io_call (Walk root) (Inr (walk_files E root))) (keep_files E))"

fun analyze_files ::
  "stdlib \<Rightarrow> env \<Rightarrow> github_scraper \<Rightarrow> string list \<Rightarrow> (pydict list \<times> string list) io" where
  \<comment> \<open>the \<open>for file_path in files_to_analyze\<close> loop: the records and \<open>code_contents\<close>\<close>
  "analyze_files H E S [] = io_return ([], [])"
| "analyze_files H E S (file_path # rest) =
     io_bind (get_file_summary H E S file_path) (\<lambda>summary.
     io_bind (dict_index summary ''is_text'') (\<lambda>is_text.
     io_bind (if truthy is_text \<and> \<not> truthy (dict_get summary ''error'')
              then io_bind (io_call (ReadText file_path) (read_text E file_path)) (\<lambda>content.
                   io_return [content])
              else io_return []) (\<lambda>content.
     io_bind (analyze_files H E S rest) (\<lambda>(summaries, code_contents).
     io_return (summary # summaries, content @ code_contents)))))"

definition repository_record :: "string \<Rightarrow> pydict" where
  "repository_record repo_summary =
     [(''path'', PStr ''REPOSITORY_SUMMARY''), (''summary'', PStr repo_summary), (''type'', PStr ''html'')]"

definition analyze_repository ::
  "stdlib \<Rightarrow> env \<Rightarrow> github_scraper \<Rightarrow> string \<Rightarrow> (pydict list \<times> int) io" where
  "analyze_repository H E S repo_url =
     io_bind (get_cached_summaries H E S repo_url) (\<lambda>cached_result.
     case cached_result of
       Some result \<Rightarrow> io_return result
     | None \<Rightarrow>
         if repo_path S = None \<or> repo_path S = Some [] then io_raise not_cloned
         else io_catch
           (io_bind (get_all_files E S) (\<lambda>files_to_analyze.
            let total_files = int (length files_to_analyze)
            in if total_files = 0 then io_return ([], 0)
               else io_bind (analyze_files H E S files_to_analyze) (\<lambda>(summaries, code_contents).
                    io_bind (if code_contents \<noteq> []
                             then io_bind (summarize_repo (llm S) code_contents) (\<lambda>repo_summary.
                                  io_return (summaries @ [repository_record repo_summary]))
                             else io_return summaries) (\<lambda>summaries'.
                    io_bind (save_to_cache H E S repo_url summaries' total_files) (\<lambda>u.
                    io_return (summaries', total_files))))))
           io_raise)"

section \<open>Observations on runs, and example repositories\<close>

definition token_estimate :: "(string \<Rightarrow> nat list) \<Rightarrow> string \<Rightarrow> int" where
  \<comment> \<open>the count \<open>_chunk_text\<close> keeps for a chunk: the sum of the token counts of its words\<close>
  "token_estimate encode chunk =
     sum_list (map (\<lambda>word. int (length (encode word))) (split_ws chunk))"

definition demo_lib :: stdlib where
  \<comment> \<open>a stand-in digest, and \<open>relpath\<close> for a path below the start directory\<close>
  "demo_lib = \<lparr>md5_hexdigest = (\<lambda>url. ''5d41402a''),
               relpath = (\<lambda>p start. case start of None \<Rightarrow> p | Some r \<Rightarrow> drop (length r + 1) p)\<rparr>"

definition demo_encode :: "string \<Rightarrow> nat list" where
  \<comment> \<open>a tokenizer with one token per character, between the two special tokens\<close>
  "demo_encode w = 0 # map of_char w @ [2]"

definition demo_llm :: llm_summarize where
  "demo_llm = \<lparr>tokenizer = demo_encode,
               summarizer = (\<lambda>text mx mn. Inr (''summary of '' @ take 8 text))\<rparr>"

definition demo_scraper :: github_scraper where
  "demo_scraper = \<lparr>temp_dir = Some ''/tmp/r'', repo_path = Some ''/tmp/r'',
                   cache_dir = ''/home/u/.git_analyzer_cache'', llm = demo_llm\<rparr>"

definition text_env :: "(string \<times> string) list \<Rightarrow> env" where
  \<comment> \<open>a clone that holds the given text files, and an empty cache\<close>
  "text_env files =
     \<lparr>magic_from_file = (\<lambda>p. case map_of files p of None \<Rightarrow> Inl (OSError p) | Some c \<Rightarrow> Inr ''text/plain''),
      getsize = (\<lambda>p. case map_of files p of None \<Rightarrow> Inl (OSError p) | Some c \<Rightarrow> Inr (int (length c))),
      stat_size = (\<lambda>p. case map_of files p of None \<Rightarrow> Inl (OSError p) | Some c \<Rightarrow> Inr (int (length c))),
      read_text = (\<lambda>p. case map_of files p of None \<Rightarrow> Inl (OSError p) | Some c \<Rightarrow> Inr c),
      walk_files = (\<lambda>root. map fst files),
      cache_exists = (\<lambda>f. False),
      cache_load = (\<lambda>f. Inl (OSError f)),
      cache_dump = (\<lambda>f. Inr ()),
      mkdtemp = Inr ''/tmp/r'',
      clone_from = (\<lambda>url d. Inr ())\<rparr>"

definition unreadable_env :: env where
  \<comment> \<open>two enumerated files; opening the first one fails\<close>
  "unreadable_env =
     (text_env [(''/tmp/r/a.py'', ''x = 1''), (''/tmp/r/b.py'', ''y = 2'')])
       \<lparr>read_text := (\<lambda>p. if p = ''/tmp/r/a.py'' then Inl (OSError ''gone'') else Inr ''y = 2'')\<rparr>"

definition failing_llm :: llm_summarize where
  \<comment> \<open>a model whose every invocation raises\<close>
  "failing_llm = \<lparr>tokenizer = demo_encode,
                  summarizer = (\<lambda>text mx mn. Inl (RuntimeError ''index out of range in self''))\<rparr>"

definition detected_type :: "env \<Rightarrow> string \<Rightarrow> string" where
  \<comment> \<open>what \<open>get_file_type\<close> returns: the type libmagic finds, or the fallback when it raises\<close>
  "detected_type E file_path =
     (case magic_from_file E file_path of Inl e \<Rightarrow> ''application/octet-stream'' | Inr mime \<Rightarrow> mime)"

definition loc_of :: "string \<Rightarrow> int" where
  \<comment> \<open>the LOC that \<open>get_file_summary\<close> computes from the content\<close>
  "loc_of content = int (length (filter is_code_line (split_chr NL content)))"

definition base_record :: "stdlib \<Rightarrow> env \<Rightarrow> github_scraper \<Rightarrow> string \<Rightarrow> int \<Rightarrow> pydict" where
  \<comment> \<open>the dictionary \<open>get_file_summary\<close> starts from\<close>
  "base_record H E S file_path file_size =
     [(''path'', PStr (relpath H file_path (repo_path S))),
      (''size'', PInt file_size),
      (''type'', PStr (detected_type E file_path)),
      (''is_text'', PBool (is_text_mime (detected_type E file_path))),
      (''summary'', PNone)]"

definition two_lines :: string where
  "two_lines = ''x = 1'' @ [NL] @ ''y = 2''"

definition four_lines :: string where
  "four_lines = ''a = 1'' @ [NL] @ ''b = 2'' @ [NL] @ ''c = 3'' @ [NL] @ ''d = 4''"

definition short_env :: env where
  \<comment> \<open>a clone with one text file of two lines\<close>
  "short_env = text_env [(''/tmp/r/a.py'', two_lines)]"

definition small_env :: env where
  \<comment> \<open>a clone with one text file of four lines, all of them code\<close>
  "small_env = text_env [(''/tmp/r/a.py'', four_lines)]"

definition binary_env :: env where
  \<comment> \<open>a file named \<open>a.py\<close> that libmagic does not find to be text\<close>
  "binary_env =
     (text_env [(''/tmp/r/a.py'', four_lines)])
       \<lparr>magic_from_file := (\<lambda>p. Inr ''application/octet-stream'')\<rparr>"

definition repo_url :: string where
  "repo_url = ''https://github.com/o/r''"

definition size_exceeds :: "env \<Rightarrow> string \<Rightarrow> bool" where
  \<comment> \<open>the outcome of the size check: over 100 KiB, or \<open>os.path.getsize\<close> raised\<close>
  "size_exceeds E file_path =
     (case getsize E file_path of Inl e \<Rightarrow> True | Inr n \<Rightarrow> n > 100 * 1024)"

definition vendored_env :: env where
  \<comment> \<open>a clone with a text file below \<open>node_modules\<close>, one below \<open>.github\<close>, and one at the top\<close>
  "vendored_env = text_env [(''/tmp/r/node_modules/a.js'', two_lines),
                            (''/tmp/r/.github/ci.yml'', two_lines),
                            (''/tmp/r/a.py'', two_lines)]"

definition fresh_scraper :: github_scraper where
  \<comment> \<open>a scraper that has cloned nothing\<close>
  "fresh_scraper = \<lparr>temp_dir = None, repo_path = None,
                    cache_dir = ''/home/u/.git_analyzer_cache'', llm = demo_llm\<rparr>"

definition stored_summaries :: "pydict list" where
  "stored_summaries =
     [[(''path'', PStr ''a.py''), (''size'', PInt 11), (''type'', PStr ''text/plain''),
       (''is_text'', PBool True), (''summary'', PStr too_short_summary)],
      repository_record ''<p>stored</p>'']"

definition text_and_ok :: "pydict \<Rightarrow> bool" where
  \<comment> \<open>the test \<open>summary['is_text'] and not summary.get('error')\<close> of the loop, on a record\<close>
  "text_and_ok summary =
     (truthy (dict_get summary ''is_text'') \<and> \<not> truthy (dict_get summary ''error''))"

definition short_result :: "pydict list" where
  \<comment> \<open>what the analysis of \<open>short_env\<close> returns\<close>
  "short_result =
     [[(''path'', PStr ''a.py''), (''size'', PInt 11), (''type'', PStr ''text/plain''),
       (''is_text'', PBool True), (''summary'', PStr too_short_summary)],
      repository_record (format_as_html ''summary of summary '')]"

definition empty_env :: env where
  \<comment> \<open>a clone without files\<close>
  "empty_env = text_env []"

definition is_repo_call :: "event \<Rightarrow> bool" where
  \<comment> \<open>a call of the model with the long output bound of \<open>summarize_repo\<close>\<close>
  "is_repo_call ev = (case ev of ModelCall chunk mx mn \<Rightarrow> mx = 500 \<and> mn = 100 | _ \<Rightarrow> False)"

definition repo_calls :: "event list \<Rightarrow> event list" where
  "repo_calls t = filter is_repo_call t"

definition summary_of :: "llm_summarize \<Rightarrow> string \<Rightarrow> string" where
  \<comment> \<open>the string \<open>summarize_code\<close> returns for a content\<close>
  "summary_of L code = (case fst (summarize_code L code) of Inl e \<Rightarrow> error_summary | Inr s \<Rightarrow> s)"

definition recomputed_summaries :: "llm_summarize \<Rightarrow> string list \<Rightarrow> string list" where
  \<comment> \<open>the \<open>file_summaries\<close> of \<open>summarize_repo\<close>: computed again from the contents, the
      empty ones and the error summaries left out\<close>
  "recomputed_summaries L code_list =
     filter (\<lambda>s. s \<noteq> [] \<and> s \<noteq> error_summary) (map (summary_of L) code_list)"

definition is_word :: "string \<Rightarrow> bool" where
  \<comment> \<open>an element of \<open>text.split()\<close>: not empty, and without whitespace\<close>
  "is_word w = (w \<noteq> [] \<and> (\<forall>c \<in> set w. \<not> is_space c))"

definition word_tokens :: "(string \<Rightarrow> nat list) \<Rightarrow> string list \<Rightarrow> int" where
  "word_tokens encode ws = sum_list (map (\<lambda>word. int (length (encode word))) ws)"

definition close_chunks :: "string list \<times> string list \<times> int \<Rightarrow> string list" where
  \<comment> \<open>the end of \<open>_chunk_text\<close>: the current chunk is appended when it holds a word\<close>
  "close_chunks st =
     (case st of (chunks, current_chunk, current_length) \<Rightarrow>
        if current_chunk \<noteq> [] then chunks @ [py_join '' '' current_chunk] else chunks)"

definition long_failing_llm :: llm_summarize where
  \<comment> \<open>a model that raises on the call with the long bound only\<close>
  "long_failing_llm =
     \<lparr>tokenizer = demo_encode,
      summarizer = (\<lambda>text mx mn. if mx = 500 then Inl (RuntimeError ''out of memory'')
                                   else Inr (''summary of '' @ take 8 text))\<rparr>"

definition hex_digit :: "nat \<Rightarrow> char" where
  "hex_digit n = ''0123456789abcdef'' ! (n mod 16)"

definition hex_of :: "string \<Rightarrow> string" where
  \<comment> \<open>a stand-in digest that depends on its argument: the hexadecimal spelling of the string\<close>
  "hex_of s = concat (map (\<lambda>c. [hex_digit (of_char c div 16), hex_digit (of_char c)]) s)"

definition hex_lib :: stdlib where
  "hex_lib = \<lparr>md5_hexdigest = hex_of,
              relpath = (\<lambda>p start. case start of None \<Rightarrow> p | Some r \<Rightarrow> drop (length r + 1) p)\<rparr>"

definition url_a :: string where
  "url_a = ''o/r''"

definition url_b :: string where
  "url_b = ''o/s''"

definition cached_env_a :: env where
  \<comment> \<open>a cache that holds one entry, under the digest of \<open>url_a\<close>\<close>
  "cached_env_a =
     (text_env [])
       \<lparr>cache_exists := (\<lambda>f. f = ''/home/u/.git_analyzer_cache/6f2f72.json''),
        cache_load := (\<lambda>f. if f = ''/home/u/.git_analyzer_cache/6f2f72.json''
                           then Inr (CacheDoc (Some stored_summaries) (Some 1))
                           else Inl (OSError f))\<rparr>"

definition three_lines_nl :: string where
  \<comment> \<open>three lines, the last one closed by a newline\<close>
  "three_lines_nl = ''x = 1'' @ [NL] @ ''y = 2'' @ [NL] @ ''z = 3'' @ [NL]"

definition trailing_env :: env where
  \<comment> \<open>a clone with one text file of three lines that ends in a newline\<close>
  "trailing_env = text_env [(''/tmp/r/a.py'', three_lines_nl)]"

definition readable_text :: "env \<Rightarrow> string \<Rightarrow> bool" where
  \<comment> \<open>a file that is text and is processed without error: \<open>os.stat\<close> succeeds, libmagic
      finds a text type, and the file can be read\<close>
  "readable_text E file_path =
     (\<not> isl (stat_size E file_path) \<and> is_text_mime (detected_type E file_path)
      \<and> \<not> isl (read_text E file_path))"

section \<open>Computations\<close>

named_theorems io_simps

lemma io_bind_return [io_simps]: "io_bind (io_return x) f = f x"
  by (simp add: io_bind_def io_return_def split: prod.splits)

lemma io_bind_raise [io_simps]: "io_bind (io_raise e) f = io_raise e"
  by (simp add: io_bind_def io_raise_def)

lemma io_bind_Inl [io_simps]: "io_bind (Inl e, t) f = (Inl e, t)"
  by (simp add: io_bind_def)

lemma io_bind_Inr [io_simps]: "io_bind (Inr x, t) f = (fst (f x), t @ snd (f x))"
  by (simp add: io_bind_def split: prod.splits)

lemma io_bind_call_Inr [io_simps]: "io_bind (io_call ev (Inr x)) f = (fst (f x), ev # snd (f x))"
  by (simp add: io_bind_def io_call_def split: prod.splits)

lemma io_bind_call_Inl [io_simps]: "io_bind (io_call ev (Inl e)) f = (Inl e, [ev])"
  by (simp add: io_bind_def io_call_def)

lemma io_catch_Inl [io_simps]: "io_catch (Inl e, t) h = (fst (h e), t @ snd (h e))"
  by (simp add: io_catch_def split: prod.splits)

lemma io_catch_Inr [io_simps]: "io_catch (Inr x, t) h = (Inr x, t)"
  by (simp add: io_catch_def)

lemma io_catch_return [io_simps]: "io_catch (io_return x) h = io_return x"
  by (simp add: io_catch_def io_return_def)

lemma fst_io_return [io_simps]: "fst (io_return x) = Inr x"
  and snd_io_return [io_simps]: "snd (io_return x) = []"
  by (simp_all add: io_return_def)

lemma io_cases: obtains (raises) e t where "m = (Inl e, t)" | (returns) x t where "m = (Inr x, t)"
  by (cases m; case_tac a) auto

lemma io_catch_returns:
  assumes "\<And>e. \<exists>x. fst (h e) = Inr x"
  shows "\<exists>x. fst (io_catch m h) = Inr x"
proof (cases m rule: io_cases)
  case (raises e t)
  with assms [of e] show ?thesis by (simp add: io_simps)
next
  case (returns x t)
  then show ?thesis by (simp add: io_simps)
qed

section \<open>Chunking\<close>

text \<open>
  What holds of \<open>_chunk_text\<close> for every text and budget: the words of the chunks, in
  order, are the words of the text. When no word alone exceeds the budget, no chunk exceeds
  it and no chunk is empty.
\<close>

lemma split_ws_from_word:
  "\<forall>c \<in> set w. \<not> is_space c \<Longrightarrow> split_ws_from cur (w @ s) = split_ws_from (cur @ w) s"
  by (induction w arbitrary: cur) simp_all

lemma split_ws_from_is_word:
  "\<forall>c \<in> set cur. \<not> is_space c \<Longrightarrow> list_all is_word (split_ws_from cur s)"
  by (induction s arbitrary: cur) (auto simp add: is_word_def)

lemma split_ws_is_word: "list_all is_word (split_ws s)"
  by (simp add: split_ws_def split_ws_from_is_word)

lemma split_ws_join: "list_all is_word ws \<Longrightarrow> split_ws (py_join '' '' ws) = ws"
proof (induction "'' ''" ws rule: py_join.induct)
  case 1
  then show ?case by (simp add: split_ws_def)
next
  case (2 x)
  then have "split_ws_from [] (x @ []) = split_ws_from ([] @ x) []"
    by (intro split_ws_from_word) (simp add: is_word_def)
  with 2 show ?case by (simp add: split_ws_def is_word_def)
next
  case (3 x y ys)
  then have "split_ws_from [] (x @ '' '' @ py_join '' '' (y # ys))
               = split_ws_from ([] @ x) ('' '' @ py_join '' '' (y # ys))"
    by (intro split_ws_from_word) (simp add: is_word_def)
  with 3 show ?case by (simp add: split_ws_def is_word_def is_space_def)
qed

lemma chunk_loop_words:
  "list_all is_word words \<Longrightarrow> list_all is_word current_chunk
     \<Longrightarrow> concat (map split_ws (close_chunks (chunk_loop encode max_length words
                                                  (chunks, current_chunk, current_length))))
         = concat (map split_ws chunks) @ current_chunk @ words"
proof (induction words arbitrary: chunks current_chunk current_length)
  case Nil
  then show ?case by (simp add: close_chunks_def split_ws_join)
next
  case (Cons word words)
  show ?case
  proof (cases "current_length + int (length (encode word)) > max_length")
    case True
    from Cons.prems have "concat (map split_ws (close_chunks (chunk_loop encode max_length words
            (chunks @ [py_join '' '' current_chunk], [word], int (length (encode word))))))
        = concat (map split_ws (chunks @ [py_join '' '' current_chunk])) @ [word] @ words"
      by (intro Cons.IH) simp_all
    with True Cons.prems show ?thesis by (simp add: split_ws_join)
  next
    case False
    from Cons.prems have "concat (map split_ws (close_chunks (chunk_loop encode max_length words
            (chunks, current_chunk @ [word], current_length + int (length (encode word))))))
        = concat (map split_ws chunks) @ (current_chunk @ [word]) @ words"
      by (intro Cons.IH) simp_all
    with False show ?thesis by simp
  qed
qed

lemma chunk_text_close: "chunk_text encode text max_length
    = close_chunks (chunk_loop encode max_length (split_ws text) ([], [], 0))"
  by (simp add: chunk_text_def close_chunks_def split: prod.splits)

lemma chunk_text_words:
  "concat (map split_ws (chunk_text encode text max_length)) = split_ws text"
  using chunk_loop_words [of "split_ws text" "[]" encode max_length "[]" 0]
  by (simp add: chunk_text_close split_ws_is_word)

lemma token_estimate_join:
  "list_all is_word ws \<Longrightarrow> token_estimate encode (py_join '' '' ws) = word_tokens encode ws"
  by (simp add: token_estimate_def word_tokens_def split_ws_join)

lemma py_join_words_not_empty: "list_all is_word ws \<Longrightarrow> ws \<noteq> [] \<Longrightarrow> py_join '' '' ws \<noteq> []"
  by (induction "'' ''" ws rule: py_join.induct) (simp_all add: is_word_def)

lemma chunk_loop_fits:
  "list_all is_word words \<Longrightarrow> \<forall>w \<in> set words. int (length (encode w)) \<le> max_length
     \<Longrightarrow> list_all is_word current_chunk
     \<Longrightarrow> current_length = word_tokens encode current_chunk
     \<Longrightarrow> current_length \<le> max_length
     \<Longrightarrow> \<forall>c \<in> set chunks. c \<noteq> [] \<and> token_estimate encode c \<le> max_length
     \<Longrightarrow> \<forall>c \<in> set (close_chunks (chunk_loop encode max_length words
                                      (chunks, current_chunk, current_length))).
           c \<noteq> [] \<and> token_estimate encode c \<le> max_length"
proof (induction words arbitrary: chunks current_chunk current_length)
  case Nil
  then show ?case
    by (auto simp add: close_chunks_def token_estimate_join py_join_words_not_empty)
next
  case (Cons word words)
  show ?case
  proof (cases "current_length + int (length (encode word)) > max_length")
    case True
    with Cons.prems have ne: "current_chunk \<noteq> []"
      by (auto simp add: word_tokens_def)
    have "\<forall>c \<in> set (close_chunks (chunk_loop encode max_length words
            (chunks @ [py_join '' '' current_chunk], [word], int (length (encode word))))).
           c \<noteq> [] \<and> token_estimate encode c \<le> max_length"
      using Cons.prems ne
      by (intro Cons.IH)
         (auto simp add: word_tokens_def token_estimate_join py_join_words_not_empty)
    with True show ?thesis by simp
  next
    case False
    have "\<forall>c \<in> set (close_chunks (chunk_loop encode max_length words
            (chunks, current_chunk @ [word], current_length + int (length (encode word))))).
           c \<noteq> [] \<and> token_estimate encode c \<le> max_length"
      using Cons.prems False
      by (intro Cons.IH) (auto simp add: word_tokens_def)
    with False show ?thesis by simp
  qed
qed

lemma chunk_text_fits:
  assumes "\<forall>w \<in> set (split_ws text). int (length (encode w)) \<le> max_length"
    and "0 \<le> max_length"
  shows "\<forall>c \<in> set (chunk_text encode text max_length).
           c \<noteq> [] \<and> token_estimate encode c \<le> max_length"
  unfolding chunk_text_close
  using assms by (intro chunk_loop_fits) (simp_all add: split_ws_is_word word_tokens_def)

lemma split_ws_from_replicate:
  "\<not> is_space c \<Longrightarrow> cur \<noteq> [] \<or> 0 < n \<Longrightarrow> split_ws_from cur (replicate n c) = [cur @ replicate n c]"
proof (induction n arbitrary: cur)
  case 0
  then show ?case by simp
next
  case (Suc n)
  have "split_ws_from (cur @ [c]) (replicate n c) = [(cur @ [c]) @ replicate n c]"
    by (rule Suc.IH) (use Suc.prems in simp_all)
  with Suc.prems show ?case by (simp add: replicate_app_Cons_same)
qed

lemma chunk_text_single_word:
  "split_ws text = [w] \<Longrightarrow> max_length < int (length (encode w))
     \<Longrightarrow> chunk_text encode text max_length = [[], w]"
  by (simp add: chunk_text_def)

text \<open>
  C4 (fails on the code). The claim: for every text and positive budget, no chunk's token
  estimate exceeds the budget and no chunk is empty unless the input is. With the default
  budget of 1000 and a text that is one word of 1001 tokens, \<open>_chunk_text\<close> closes the
  still empty current chunk and returns the empty string followed by the word: an empty
  chunk for a non-empty input, and a chunk over the budget. The final flush of the same
  function guards against an empty chunk; the flush inside the loop does not.
\<close>

theorem chunk_text_oversized_word:
  "chunk_text demo_encode (replicate 999 (CHR ''a'')) default_max_length
     = ['''', replicate 999 (CHR ''a'')]
   \<and> token_estimate demo_encode (replicate 999 (CHR ''a'')) = 1001
   \<and> default_max_length = 1000"
proof -
  have w: "split_ws (replicate 999 (CHR ''a'')) = [replicate 999 (CHR ''a'')]"
    unfolding split_ws_def by (subst split_ws_from_replicate) (simp_all add: is_space_def)
  have "chunk_text demo_encode (replicate 999 (CHR ''a'')) default_max_length
          = ['''', replicate 999 (CHR ''a'')]"
    by (rule chunk_text_single_word [OF w]) (simp add: demo_encode_def default_max_length_def)
  moreover have "token_estimate demo_encode (replicate 999 (CHR ''a'')) = 1001"
    by (simp add: token_estimate_def w demo_encode_def)
  ultimately show ?thesis by (simp add: default_max_length_def)
qed

section \<open>Failure of one file\<close>

text \<open>
  C1 (fails on the code). The claim: the failure of one file is captured in the error field
  of its record and the remaining files are still analysed. \<open>get_file_summary\<close> does
  return the record with the error field, but that record has no key \<open>is_text\<close>, and the
  loop of \<open>analyze_repository\<close> indexes it: the \<open>KeyError\<close> leaves the loop and is raised
  again, and the second file is never looked at.
\<close>

theorem analyze_repository_unreadable_file:
  "get_file_summary demo_lib unreadable_env demo_scraper ''/tmp/r/a.py''
     = (Inr [(''path'', PStr ''a.py''), (''error'', PStr ''gone'')],
        [Stat ''/tmp/r/a.py'', MagicFromFile ''/tmp/r/a.py'', MagicFromFile ''/tmp/r/a.py'',
         ReadText ''/tmp/r/a.py''])
   \<and> fst (get_all_files unreadable_env demo_scraper) = Inr [''/tmp/r/a.py'', ''/tmp/r/b.py'']
   \<and> fst (analyze_repository demo_lib unreadable_env demo_scraper ''https://github.com/o/r'')
       = Inl (KeyError ''is_text'')
   \<and> Stat ''/tmp/r/b.py''
       \<notin> set (snd (analyze_repository demo_lib unreadable_env demo_scraper ''https://github.com/o/r''))"
  by code_simp

section \<open>The summarizer never raises\<close>

lemma summarize_code_returns: "\<exists>s. fst (summarize_code L code) = Inr s"
  unfolding summarize_code_def by (rule io_catch_returns) (simp add: io_simps)

lemma summarize_repo_returns: "\<exists>s. fst (summarize_repo L code_list) = Inr s"
  unfolding summarize_repo_def by (rule io_catch_returns) (simp add: io_simps)

lemma summarize_chunks_raises:
  "chunk \<in> set chunks \<Longrightarrow> summarizer L chunk 46 30 = Inl e
     \<Longrightarrow> \<exists>e'. fst (summarize_chunks L chunks) = Inl e'"
proof (induction chunks)
  case Nil
  then show ?case by simp
next
  case (Cons c cs)
  show ?case
  proof (cases "summarizer L c 46 30")
    case (Inl e0)
    then show ?thesis by (simp add: io_simps)
  next
    case (Inr s)
    with Cons.prems have "chunk \<in> set cs" by auto
    then obtain e' where "fst (summarize_chunks L cs) = Inl e'"
      using Cons.IH Cons.prems(2) by blast
    then obtain t where "summarize_chunks L cs = (Inl e', t)" by (metis prod.collapse)
    with Inr show ?thesis by (simp add: io_simps)
  qed
qed

section \<open>The record of one file\<close>

lemma get_file_type_eq:
  "get_file_type E p = (Inr (detected_type E p), [MagicFromFile p])"
  by (cases "magic_from_file E p")
     (simp_all add: get_file_type_def detected_type_def io_call_def io_simps)

lemma is_text_file_eq:
  "is_text_file E p = (Inr (is_text_mime (detected_type E p)), [MagicFromFile p])"
  by (simp add: is_text_file_def get_file_type_eq io_simps)

lemma get_file_summary_stat_ok:
  assumes "stat_size E p = Inr file_size"
  shows "get_file_summary H E S p =
     io_catch
       (if is_text_mime (detected_type E p)
        then io_bind (io_call (Stat p) (Inr file_size)) (\<lambda>u.
             io_bind (get_file_type E p) (\<lambda>u.
             io_bind (is_text_file E p) (\<lambda>u.
             io_bind (io_call (ReadText p) (read_text E p))
               (text_file_summary S p (base_record H E S p file_size)))))
        else (Inr (base_record H E S p file_size), [Stat p, MagicFromFile p, MagicFromFile p]))
       (\<lambda>e. io_return [(''path'', PStr (relpath H p (repo_path S))),
                        (''error'', PStr (str_of_error e))])"
  using assms
  by (simp add: get_file_summary_def get_file_type_eq is_text_file_eq io_simps base_record_def)

lemma get_file_summary_text:
  assumes "stat_size E p = Inr file_size" and "is_text_mime (detected_type E p)"
    and "read_text E p = Inr content"
    and "text_file_summary S p (base_record H E S p file_size) content = (Inr rec, t)"
  shows "get_file_summary H E S p
           = (Inr rec, [Stat p, MagicFromFile p, MagicFromFile p, ReadText p] @ t)"
  using assms
  by (simp add: get_file_summary_stat_ok get_file_type_eq is_text_file_eq io_simps)

lemma get_file_summary_not_text:
  assumes "stat_size E p = Inr file_size" and "\<not> is_text_mime (detected_type E p)"
  shows "get_file_summary H E S p
           = (Inr (base_record H E S p file_size), [Stat p, MagicFromFile p, MagicFromFile p])"
  using assms by (simp add: get_file_summary_stat_ok io_simps)

lemma text_file_summary_short:
  assumes "length (split_chr NL content) \<le> 3"
  shows "text_file_summary S p d content = (Inr (dict_set d ''summary'' (PStr too_short_summary)), [])"
  using assms by (simp add: text_file_summary_def io_return_def)

lemma text_file_summary_small:
  assumes "3 < length (split_chr NL content)" and "loc_of content \<le> 5"
  shows "text_file_summary S p d content =
     (Inr (dict_set (dict_set d ''loc'' (PInt (loc_of content))) ''language''
             (PStr (language_of_ext (py_lower (splitext_ext p))))), [])"
  using assms by (simp add: text_file_summary_def loc_of_def Let_def io_simps io_return_def)

lemma text_file_summary_large:
  assumes "3 < length (split_chr NL content)" and "5 < loc_of content"
    and "summarize_code (llm S) content = (Inr text, t)"
  shows "text_file_summary S p d content =
     (Inr (dict_set (dict_set (dict_set d ''loc'' (PInt (loc_of content))) ''summary'' (PStr text))
             ''language'' (PStr (language_of_ext (py_lower (splitext_ext p))))), t)"
  using assms by (simp add: text_file_summary_def loc_of_def Let_def io_simps io_return_def)

lemma map_of_dict_set: "map_of (dict_set d k v) k' = (if k' = k then Some v else map_of d k')"
  by (simp add: dict_set_def update_conv')

text \<open>
  What \<open>get_file_summary\<close> compares with 3 is the number of pieces of
  \<open>content.split('\n')\<close>, one more than the number of newline characters of the content.
\<close>

lemma split_chr_length: "length (split_chr sep s) = Suc (count_list s sep)"
  by (induction s) (auto split: list.splits)

text \<open>
  C7 (as amended). For a text file whose content holds at most two newline characters, so
  that it splits at newlines into 3 or fewer pieces, and whose \<open>stat\<close> and read succeed,
  \<open>get_file_summary\<close> returns a record whose summary is the fixed "too short" string,
  and its trace holds no call of the model: it only stats, sniffs and reads the file.
\<close>

theorem short_file_too_short_summary:
  assumes "stat_size E p = Inr file_size" and "is_text_mime (detected_type E p)"
    and "read_text E p = Inr content" and "count_list content NL \<le> 2"
  shows "length (split_chr NL content) \<le> 3
         \<and> (\<exists>rec. get_file_summary H E S p
                  = (Inr rec, [Stat p, MagicFromFile p, MagicFromFile p, ReadText p])
               \<and> map_of rec ''summary'' = Some (PStr too_short_summary))"
proof -
  from assms(4) have short: "length (split_chr NL content) \<le> 3"
    by (simp add: split_chr_length)
  let ?rec = "dict_set (base_record H E S p file_size) ''summary'' (PStr too_short_summary)"
  have "get_file_summary H E S p
          = (Inr ?rec, [Stat p, MagicFromFile p, MagicFromFile p, ReadText p] @ [])"
    using assms(1-3) text_file_summary_short [OF short] by (rule get_file_summary_text)
  moreover have "map_of ?rec ''summary'' = Some (PStr too_short_summary)"
    by (simp add: map_of_dict_set)
  ultimately show ?thesis using short by simp
qed

theorem short_file_too_short_summary_witness:
  "(stat_size short_env ''/tmp/r/a.py'' = Inr 11
      \<and> is_text_mime (detected_type short_env ''/tmp/r/a.py'')
      \<and> read_text short_env ''/tmp/r/a.py'' = Inr two_lines
      \<and> count_list two_lines NL \<le> 2)
   \<and> length (split_chr NL two_lines) \<le> 3
   \<and> (\<exists>rec. get_file_summary demo_lib short_env demo_scraper ''/tmp/r/a.py''
               = (Inr rec, [Stat ''/tmp/r/a.py'', MagicFromFile ''/tmp/r/a.py'',
                            MagicFromFile ''/tmp/r/a.py'', ReadText ''/tmp/r/a.py''])
             \<and> map_of rec ''summary'' = Some (PStr too_short_summary))"
proof -
  have h: "stat_size short_env ''/tmp/r/a.py'' = Inr 11"
    "is_text_mime (detected_type short_env ''/tmp/r/a.py'')"
    "read_text short_env ''/tmp/r/a.py'' = Inr two_lines"
    "count_list two_lines NL \<le> 2"
    by code_simp+
  from short_file_too_short_summary [OF h, of demo_lib demo_scraper] h show ?thesis by blast
qed

text \<open>
  Two files of 3 or fewer lines. The first has two lines: its record has the "too short"
  string, and in the whole run \<open>analyze_repository\<close> appends its content to
  \<open>code_contents\<close> and \<open>summarize_repo\<close> calls the model on it. The second has three
  lines and ends in a newline: it splits into four pieces, and its record has no summary
  at all, a LOC of 3 and a language.
\<close>

theorem short_file_sent_to_model:
  "length (split_chr NL two_lines) \<le> 3
   \<and> fst (get_all_files short_env demo_scraper) = Inr [''/tmp/r/a.py'']
   \<and> get_file_summary demo_lib short_env demo_scraper ''/tmp/r/a.py''
       = (Inr [(''path'', PStr ''a.py''), (''size'', PInt 11), (''type'', PStr ''text/plain''),
               (''is_text'', PBool True), (''summary'', PStr too_short_summary)],
          [Stat ''/tmp/r/a.py'', MagicFromFile ''/tmp/r/a.py'', MagicFromFile ''/tmp/r/a.py'',
           ReadText ''/tmp/r/a.py''])
   \<and> ModelCall ''x = 1 y = 2'' 46 30
       \<in> set (snd (analyze_repository demo_lib short_env demo_scraper repo_url))
   \<and> three_lines_nl = ''x = 1'' @ [NL] @ ''y = 2'' @ [NL] @ ''z = 3'' @ [NL]
   \<and> length (split_chr NL three_lines_nl) = 4
   \<and> get_file_summary demo_lib trailing_env demo_scraper ''/tmp/r/a.py''
       = (Inr [(''path'', PStr ''a.py''), (''size'', PInt 18), (''type'', PStr ''text/plain''),
               (''is_text'', PBool True), (''summary'', PNone), (''loc'', PInt 3),
               (''language'', PStr ''Python'')],
          [Stat ''/tmp/r/a.py'', MagicFromFile ''/tmp/r/a.py'', MagicFromFile ''/tmp/r/a.py'',
           ReadText ''/tmp/r/a.py''])"
  by code_simp

text \<open>
  C8 (as amended). For a text file whose content holds at least three newline characters,
  so that it splits at newlines into more than 3 pieces, whose LOC is at most 5 and whose
  \<open>stat\<close> and read succeed, \<open>get_file_summary\<close> returns a record whose summary is
  \<open>None\<close> and whose \<open>loc\<close> is that count, and its trace holds no call of the model.
\<close>

theorem small_file_no_summary:
  assumes "stat_size E p = Inr file_size" and "is_text_mime (detected_type E p)"
    and "read_text E p = Inr content"
    and "3 \<le> count_list content NL" and "loc_of content \<le> 5"
  shows "3 < length (split_chr NL content)
         \<and> (\<exists>rec. get_file_summary H E S p
                  = (Inr rec, [Stat p, MagicFromFile p, MagicFromFile p, ReadText p])
               \<and> map_of rec ''summary'' = Some PNone
               \<and> map_of rec ''loc'' = Some (PInt (loc_of content)))"
proof -
  from assms(4) have long: "3 < length (split_chr NL content)"
    by (simp add: split_chr_length)
  let ?rec = "dict_set (dict_set (base_record H E S p file_size) ''loc'' (PInt (loc_of content)))
                ''language'' (PStr (language_of_ext (py_lower (splitext_ext p))))"
  have "get_file_summary H E S p
          = (Inr ?rec, [Stat p, MagicFromFile p, MagicFromFile p, ReadText p] @ [])"
    using assms(1-3) text_file_summary_small [OF long assms(5)] by (rule get_file_summary_text)
  moreover have "map_of ?rec ''summary'' = Some PNone"
    and "map_of ?rec ''loc'' = Some (PInt (loc_of content))"
    by (simp_all add: map_of_dict_set base_record_def)
  ultimately show ?thesis using long by simp
qed

theorem small_file_no_summary_witness:
  "(stat_size small_env ''/tmp/r/a.py'' = Inr 23
      \<and> is_text_mime (detected_type small_env ''/tmp/r/a.py'')
      \<and> read_text small_env ''/tmp/r/a.py'' = Inr four_lines
      \<and> 3 \<le> count_list four_lines NL \<and> loc_of four_lines \<le> 5)
   \<and> 3 < length (split_chr NL four_lines)
   \<and> (\<exists>rec. get_file_summary demo_lib small_env demo_scraper ''/tmp/r/a.py''
               = (Inr rec, [Stat ''/tmp/r/a.py'', MagicFromFile ''/tmp/r/a.py'',
                            MagicFromFile ''/tmp/r/a.py'', ReadText ''/tmp/r/a.py''])
             \<and> map_of rec ''summary'' = Some PNone
             \<and> map_of rec ''loc'' = Some (PInt (loc_of four_lines)))"
proof -
  have h: "stat_size small_env ''/tmp/r/a.py'' = Inr 23"
    "is_text_mime (detected_type small_env ''/tmp/r/a.py'')"
    "read_text small_env ''/tmp/r/a.py'' = Inr four_lines"
    "3 \<le> count_list four_lines NL" "loc_of four_lines \<le> 5"
    by code_simp+
  from small_file_no_summary [OF h, of demo_lib demo_scraper] h show ?thesis by blast
qed

text \<open>
  In a whole run the file of four lines, whose record has no summary, reaches the model
  through \<open>summarize_repo\<close> all the same.
\<close>

theorem small_file_sent_to_model:
  "3 < length (split_chr NL four_lines) \<and> loc_of four_lines = 4
   \<and> fst (get_all_files small_env demo_scraper) = Inr [''/tmp/r/a.py'']
   \<and> get_file_summary demo_lib small_env demo_scraper ''/tmp/r/a.py''
       = (Inr [(''path'', PStr ''a.py''), (''size'', PInt 23), (''type'', PStr ''text/plain''),
               (''is_text'', PBool True), (''summary'', PNone), (''loc'', PInt 4),
               (''language'', PStr ''Python'')],
          [Stat ''/tmp/r/a.py'', MagicFromFile ''/tmp/r/a.py'', MagicFromFile ''/tmp/r/a.py'',
           ReadText ''/tmp/r/a.py''])
   \<and> ModelCall ''a = 1 b = 2 c = 3 d = 4'' 46 30
       \<in> set (snd (analyze_repository demo_lib small_env demo_scraper repo_url))"
  by code_simp

text \<open>
  C6 (as amended). A file classified as text whose content holds at least three newline
  characters, so that it splits at newlines into more than 3 pieces, gets the language that
  the fixed mapping gives the lower-cased suffix of its name, whatever its LOC and summary;
  a text file whose content holds at most two newline characters and a file that is not
  text get no language key; a suffix outside the mapping is tagged "Unknown".
\<close>

theorem language_only_for_long_text_files:
  "(stat_size E p = Inr file_size \<and> is_text_mime (detected_type E p) \<and> read_text E p = Inr content
      \<and> 3 \<le> count_list content NL
     \<longrightarrow> (\<exists>rec t. get_file_summary H E S p = (Inr rec, t)
            \<and> map_of rec ''language'' = Some (PStr (language_of_ext (py_lower (splitext_ext p))))))
   \<and> (stat_size E p = Inr file_size \<and> is_text_mime (detected_type E p) \<and> read_text E p = Inr content
      \<and> count_list content NL \<le> 2
     \<longrightarrow> (\<exists>rec t. get_file_summary H E S p = (Inr rec, t) \<and> map_of rec ''language'' = None))
   \<and> (stat_size E p = Inr file_size \<and> \<not> is_text_mime (detected_type E p)
     \<longrightarrow> (\<exists>rec t. get_file_summary H E S p = (Inr rec, t) \<and> map_of rec ''language'' = None))
   \<and> (ext \<notin> set [''.py'', ''.js'', ''.jsx'', ''.ts'', ''.tsx'', ''.java'', ''.cpp'', ''.cc'', ''.cxx'',
                  ''.c'', ''.go'', ''.rb'', ''.html'', ''.htm'', ''.css'', ''.md'', ''.json'', ''.xml'',
                  ''.yaml'', ''.yml'']
     \<longrightarrow> language_of_ext ext = ''Unknown'')"
proof (intro conjI impI)
  assume h: "stat_size E p = Inr file_size \<and> is_text_mime (detected_type E p)
      \<and> read_text E p = Inr content \<and> 3 \<le> count_list content NL"
  then have long: "3 < length (split_chr NL content)"
    by (simp add: split_chr_length)
  let ?lang = "PStr (language_of_ext (py_lower (splitext_ext p)))"
  obtain rec t where r: "text_file_summary S p (base_record H E S p file_size) content = (Inr rec, t)"
    and l: "map_of rec ''language'' = Some ?lang"
  proof (cases "loc_of content \<le> 5")
    case True
    with long that text_file_summary_small [of content S p] show ?thesis
      by (simp add: map_of_dict_set)
  next
    case False
    obtain sm t where "summarize_code (llm S) content = (Inr sm, t)"
      using summarize_code_returns [of "llm S" content] by (metis prod.collapse)
    with False long that text_file_summary_large [of content S sm t p] show ?thesis
      by (simp add: map_of_dict_set)
  qed
  from h r have "get_file_summary H E S p
      = (Inr rec, [Stat p, MagicFromFile p, MagicFromFile p, ReadText p] @ t)"
    by (intro get_file_summary_text) simp_all
  with l show "\<exists>rec t. get_file_summary H E S p = (Inr rec, t) \<and> map_of rec ''language'' = Some ?lang"
    by blast
next
  assume h: "stat_size E p = Inr file_size \<and> is_text_mime (detected_type E p)
      \<and> read_text E p = Inr content \<and> count_list content NL \<le> 2"
  then have short: "length (split_chr NL content) \<le> 3"
    by (simp add: split_chr_length)
  let ?rec = "dict_set (base_record H E S p file_size) ''summary'' (PStr too_short_summary)"
  from short have "text_file_summary S p (base_record H E S p file_size) content = (Inr ?rec, [])"
    by (rule text_file_summary_short)
  with h have "get_file_summary H E S p
      = (Inr ?rec, [Stat p, MagicFromFile p, MagicFromFile p, ReadText p] @ [])"
    by (intro get_file_summary_text) simp_all
  moreover have "map_of ?rec ''language'' = None"
    by (simp add: map_of_dict_set base_record_def)
  ultimately show "\<exists>rec t. get_file_summary H E S p = (Inr rec, t) \<and> map_of rec ''language'' = None"
    by blast
next
  assume h: "stat_size E p = Inr file_size \<and> \<not> is_text_mime (detected_type E p)"
  then have "get_file_summary H E S p
      = (Inr (base_record H E S p file_size), [Stat p, MagicFromFile p, MagicFromFile p])"
    by (intro get_file_summary_not_text) simp_all
  moreover have "map_of (base_record H E S p file_size) ''language'' = None"
    by (simp add: base_record_def)
  ultimately show "\<exists>rec t. get_file_summary H E S p = (Inr rec, t) \<and> map_of rec ''language'' = None"
    by blast
next
  assume "ext \<notin> set [''.py'', ''.js'', ''.jsx'', ''.ts'', ''.tsx'', ''.java'', ''.cpp'', ''.cc'', ''.cxx'',
                  ''.c'', ''.go'', ''.rb'', ''.html'', ''.htm'', ''.css'', ''.md'', ''.json'', ''.xml'',
                  ''.yaml'', ''.yml'']"
  then show "language_of_ext ext = ''Unknown''"
    by (simp add: language_of_ext_def)
qed

theorem language_only_for_long_text_files_witness:
  "(stat_size trailing_env ''/tmp/r/a.py'' = Inr 18
      \<and> is_text_mime (detected_type trailing_env ''/tmp/r/a.py'')
      \<and> read_text trailing_env ''/tmp/r/a.py'' = Inr three_lines_nl
      \<and> 3 \<le> count_list three_lines_nl NL)
   \<and> (\<exists>rec t. get_file_summary demo_lib trailing_env demo_scraper ''/tmp/r/a.py'' = (Inr rec, t)
         \<and> map_of rec ''language'' = Some (PStr ''Python''))
   \<and> (stat_size short_env ''/tmp/r/a.py'' = Inr 11
      \<and> is_text_mime (detected_type short_env ''/tmp/r/a.py'')
      \<and> read_text short_env ''/tmp/r/a.py'' = Inr two_lines
      \<and> count_list two_lines NL \<le> 2)
   \<and> (\<exists>rec t. get_file_summary demo_lib short_env demo_scraper ''/tmp/r/a.py'' = (Inr rec, t)
         \<and> map_of rec ''language'' = None)
   \<and> (stat_size binary_env ''/tmp/r/a.py'' = Inr 23
      \<and> \<not> is_text_mime (detected_type binary_env ''/tmp/r/a.py''))
   \<and> (\<exists>rec t. get_file_summary demo_lib binary_env demo_scraper ''/tmp/r/a.py'' = (Inr rec, t)
         \<and> map_of rec ''language'' = None)
   \<and> ''.rs'' \<notin> set [''.py'', ''.js'', ''.jsx'', ''.ts'', ''.tsx'', ''.java'', ''.cpp'', ''.cc'', ''.cxx'',
                  ''.c'', ''.go'', ''.rb'', ''.html'', ''.htm'', ''.css'', ''.md'', ''.json'', ''.xml'',
                  ''.yaml'', ''.yml'']
   \<and> language_of_ext ''.rs'' = ''Unknown''"
proof -
  have h1: "stat_size trailing_env ''/tmp/r/a.py'' = Inr 18
      \<and> is_text_mime (detected_type trailing_env ''/tmp/r/a.py'')
      \<and> read_text trailing_env ''/tmp/r/a.py'' = Inr three_lines_nl
      \<and> 3 \<le> count_list three_lines_nl NL"
    by code_simp
  have h2: "stat_size short_env ''/tmp/r/a.py'' = Inr 11
      \<and> is_text_mime (detected_type short_env ''/tmp/r/a.py'')
      \<and> read_text short_env ''/tmp/r/a.py'' = Inr two_lines
      \<and> count_list two_lines NL \<le> 2"
    by code_simp
  have h3: "stat_size binary_env ''/tmp/r/a.py'' = Inr 23
      \<and> \<not> is_text_mime (detected_type binary_env ''/tmp/r/a.py'')"
    by code_simp
  have h4: "''.rs'' \<notin> set [''.py'', ''.js'', ''.jsx'', ''.ts'', ''.tsx'', ''.java'', ''.cpp'', ''.cc'', ''.cxx'',
                  ''.c'', ''.go'', ''.rb'', ''.html'', ''.htm'', ''.css'', ''.md'', ''.json'', ''.xml'',
                  ''.yaml'', ''.yml'']"
    by simp
  have py: "language_of_ext (py_lower (splitext_ext ''/tmp/r/a.py'')) = ''Python''"
    by code_simp
  note a = language_only_for_long_text_files
    [where E = trailing_env and p = "''/tmp/r/a.py''" and file_size = 18 and content = three_lines_nl
       and H = demo_lib and S = demo_scraper and ext = "''.rs''"]
  note b = language_only_for_long_text_files
    [where E = short_env and p = "''/tmp/r/a.py''" and file_size = 11 and content = two_lines
       and H = demo_lib and S = demo_scraper and ext = "''.rs''"]
  note c = language_only_for_long_text_files
    [where E = binary_env and p = "''/tmp/r/a.py''" and file_size = 23 and content = four_lines
       and H = demo_lib and S = demo_scraper and ext = "''.rs''"]
  from a h1 py have "\<exists>rec t. get_file_summary demo_lib trailing_env demo_scraper ''/tmp/r/a.py'' = (Inr rec, t)
         \<and> map_of rec ''language'' = Some (PStr ''Python'')" by simp
  moreover from b h2 have "\<exists>rec t. get_file_summary demo_lib short_env demo_scraper ''/tmp/r/a.py'' = (Inr rec, t)
         \<and> map_of rec ''language'' = None" by blast
  moreover from c h3 have "\<exists>rec t. get_file_summary demo_lib binary_env demo_scraper ''/tmp/r/a.py'' = (Inr rec, t)
         \<and> map_of rec ''language'' = None" by blast
  moreover from a h4 have "language_of_ext ''.rs'' = ''Unknown''" by blast
  ultimately show ?thesis using h1 h2 h3 h4 by blast
qed

text \<open>
  A file named \<open>a.py\<close> that is not text: its record has no language key, although the
  mapping gives its suffix a language.
\<close>

theorem non_text_file_has_no_language:
  "\<not> is_text_mime (detected_type binary_env ''/tmp/r/a.py'')
   \<and> language_of_ext (py_lower (splitext_ext ''/tmp/r/a.py'')) = ''Python''
   \<and> get_file_summary demo_lib binary_env demo_scraper ''/tmp/r/a.py''
       = (Inr [(''path'', PStr ''a.py''), (''size'', PInt 23),
               (''type'', PStr ''application/octet-stream''), (''is_text'', PBool False),
               (''summary'', PNone)],
          [Stat ''/tmp/r/a.py'', MagicFromFile ''/tmp/r/a.py'', MagicFromFile ''/tmp/r/a.py''])
   \<and> map_of (projr (fst (get_file_summary demo_lib binary_env demo_scraper ''/tmp/r/a.py'')))
         ''language'' = None"
  by code_simp

section \<open>The skip decision\<close>

lemma size_over_limit_eq:
  "size_over_limit E p = (Inr (size_exceeds E p), [GetSize p])"
  by (cases "getsize E p")
     (simp_all add: size_over_limit_def size_exceeds_def io_call_def io_simps)

text \<open>
  C2 (as amended). The skip decision checks a hidden path segment first, without any call
  outside the process. For every other path it sniffs the MIME type next and skips a file
  that is not text; only then come the denylisted directory segment, the size ceiling of
  100 KiB and the denylisted suffix, in this order. So a path skipped for its directory,
  its size or its suffix has been sniffed before; the size is asked for only when the
  directory check has passed.
\<close>

theorem should_skip_file_order:
  "(has_hidden_part p \<longrightarrow> should_skip_file E p = (Inr True, []))
   \<and> (\<not> has_hidden_part p \<and> (\<not> is_text_mime (detected_type E p) \<or> in_skip_dir p)
        \<longrightarrow> should_skip_file E p = (Inr True, [MagicFromFile p]))
   \<and> (\<not> has_hidden_part p \<and> is_text_mime (detected_type E p) \<and> \<not> in_skip_dir p
        \<longrightarrow> should_skip_file E p
              = (Inr (size_exceeds E p \<or> has_skip_extension p), [MagicFromFile p, GetSize p]))"
  by (auto simp add: should_skip_file_def is_text_file_eq size_over_limit_eq io_simps io_return_def)

theorem should_skip_file_order_witness:
  "has_hidden_part ''/tmp/r/.github/ci.yml''
   \<and> should_skip_file vendored_env ''/tmp/r/.github/ci.yml'' = (Inr True, [])
   \<and> (\<not> has_hidden_part ''/tmp/r/node_modules/a.js'' \<and> in_skip_dir ''/tmp/r/node_modules/a.js'')
   \<and> should_skip_file vendored_env ''/tmp/r/node_modules/a.js''
       = (Inr True, [MagicFromFile ''/tmp/r/node_modules/a.js''])
   \<and> (\<not> has_hidden_part ''/tmp/r/a.py'' \<and> is_text_mime (detected_type vendored_env ''/tmp/r/a.py'')
        \<and> \<not> in_skip_dir ''/tmp/r/a.py'')
   \<and> should_skip_file vendored_env ''/tmp/r/a.py''
       = (Inr (size_exceeds vendored_env ''/tmp/r/a.py'' \<or> has_skip_extension ''/tmp/r/a.py''),
          [MagicFromFile ''/tmp/r/a.py'', GetSize ''/tmp/r/a.py''])"
proof -
  have h1: "has_hidden_part ''/tmp/r/.github/ci.yml''" by code_simp
  have h2: "\<not> has_hidden_part ''/tmp/r/node_modules/a.js'' \<and> in_skip_dir ''/tmp/r/node_modules/a.js''"
    by code_simp
  have h3: "\<not> has_hidden_part ''/tmp/r/a.py'' \<and> is_text_mime (detected_type vendored_env ''/tmp/r/a.py'')
        \<and> \<not> in_skip_dir ''/tmp/r/a.py''" by code_simp
  from should_skip_file_order [of "''/tmp/r/.github/ci.yml''" vendored_env] h1
  have "should_skip_file vendored_env ''/tmp/r/.github/ci.yml'' = (Inr True, [])" by blast
  moreover from should_skip_file_order [of "''/tmp/r/node_modules/a.js''" vendored_env] h2
  have "should_skip_file vendored_env ''/tmp/r/node_modules/a.js''
       = (Inr True, [MagicFromFile ''/tmp/r/node_modules/a.js''])" by blast
  moreover from should_skip_file_order [of "''/tmp/r/a.py''" vendored_env] h3
  have "should_skip_file vendored_env ''/tmp/r/a.py''
       = (Inr (size_exceeds vendored_env ''/tmp/r/a.py'' \<or> has_skip_extension ''/tmp/r/a.py''),
          [MagicFromFile ''/tmp/r/a.py'', GetSize ''/tmp/r/a.py''])" by blast
  ultimately show ?thesis using h1 h2 h3 by blast
qed

text \<open>
  A path below \<open>node_modules\<close> is skipped for its directory, and libmagic has been
  asked for its type before.
\<close>

theorem denylisted_directory_is_sniffed:
  "in_skip_dir ''/tmp/r/node_modules/a.js'' \<and> \<not> has_hidden_part ''/tmp/r/node_modules/a.js''
   \<and> should_skip_file vendored_env ''/tmp/r/node_modules/a.js''
       = (Inr True, [MagicFromFile ''/tmp/r/node_modules/a.js''])"
  by code_simp

section \<open>The cache\<close>

text \<open>
  C5. The cache key is the digest of the URL: it depends on nothing of the scraper, and the
  function is given nothing of the world. The cache file of a URL is the file named by that
  digest in the cache directory. When this file exists and loads to a document with both
  fields, \<open>analyze_repository\<close> returns the stored pair unchanged, and its trace is the
  look-up and the load of that file: no clone, no walk, no call of the model.
\<close>

theorem cache_hit_returns_stored:
  "get_cache_key H S url = md5_hexdigest H url
   \<and> get_cache_key H S url = get_cache_key H S' url
   \<and> cache_file_of H S url = path_join (cache_dir S) (md5_hexdigest H url @ ''.json'')
   \<and> (cache_exists E (path_join (cache_dir S) (md5_hexdigest H url @ ''.json''))
        \<and> cache_load E (path_join (cache_dir S) (md5_hexdigest H url @ ''.json''))
            = Inr (CacheDoc (Some summaries) (Some total_files))
       \<longrightarrow> analyze_repository H E S url
             = (Inr (summaries, total_files),
                [CacheExists (path_join (cache_dir S) (md5_hexdigest H url @ ''.json'')),
                 CacheLoad (path_join (cache_dir S) (md5_hexdigest H url @ ''.json''))]))"
  by (simp add: get_cache_key_def cache_file_of_def analyze_repository_def
        get_cached_summaries_def Let_def doc_summaries_def doc_total_files_def io_simps
        io_return_def)

text \<open>
  With a digest that depends on the URL: the entry stored under the digest of \<open>url_a\<close> is
  returned for \<open>url_a\<close>, to a scraper that has cloned nothing; for \<open>url_b\<close> the file of
  another digest is looked up, it is not there, and the analysis goes on to fail for want of
  a clone.
\<close>

theorem cache_hit_returns_stored_witness:
  "path_join (cache_dir fresh_scraper) (md5_hexdigest hex_lib url_a @ ''.json'')
     = ''/home/u/.git_analyzer_cache/6f2f72.json''
   \<and> (cache_exists cached_env_a (path_join (cache_dir fresh_scraper) (md5_hexdigest hex_lib url_a @ ''.json''))
      \<and> cache_load cached_env_a (path_join (cache_dir fresh_scraper) (md5_hexdigest hex_lib url_a @ ''.json''))
          = Inr (CacheDoc (Some stored_summaries) (Some 1)))
   \<and> analyze_repository hex_lib cached_env_a fresh_scraper url_a
       = (Inr (stored_summaries, 1),
          [CacheExists ''/home/u/.git_analyzer_cache/6f2f72.json'',
           CacheLoad ''/home/u/.git_analyzer_cache/6f2f72.json''])
   \<and> analyze_repository hex_lib cached_env_a fresh_scraper url_b
       = (Inl not_cloned, [CacheExists ''/home/u/.git_analyzer_cache/6f2f73.json''])"
proof -
  have f: "path_join (cache_dir fresh_scraper) (md5_hexdigest hex_lib url_a @ ''.json'')
     = ''/home/u/.git_analyzer_cache/6f2f72.json''"
    by code_simp
  have h: "cache_exists cached_env_a (path_join (cache_dir fresh_scraper) (md5_hexdigest hex_lib url_a @ ''.json''))
      \<and> cache_load cached_env_a (path_join (cache_dir fresh_scraper) (md5_hexdigest hex_lib url_a @ ''.json''))
          = Inr (CacheDoc (Some stored_summaries) (Some 1))"
    by code_simp
  have b: "analyze_repository hex_lib cached_env_a fresh_scraper url_b
       = (Inl not_cloned, [CacheExists ''/home/u/.git_analyzer_cache/6f2f73.json''])"
    by code_simp
  from cache_hit_returns_stored [of hex_lib fresh_scraper url_a fresh_scraper cached_env_a
      stored_summaries 1] h
  have "analyze_repository hex_lib cached_env_a fresh_scraper url_a
       = (Inr (stored_summaries, 1),
          [CacheExists (path_join (cache_dir fresh_scraper) (md5_hexdigest hex_lib url_a @ ''.json'')),
           CacheLoad (path_join (cache_dir fresh_scraper) (md5_hexdigest hex_lib url_a @ ''.json''))])"
    by blast
  with f h b show ?thesis by simp
qed

section \<open>The list that an analysis returns\<close>

lemma io_result: "\<exists>r t. m = (r, t)"
  by (cases m) simp

lemma fst_io_bind_Inr_iff:
  "fst (io_bind m f) = Inr y \<longleftrightarrow> (\<exists>x. fst m = Inr x \<and> fst (f x) = Inr y)"
  by (cases m rule: io_cases) (auto simp add: io_simps)

lemma fst_io_catch_raise: "fst (io_catch m io_raise) = fst m"
  by (cases m rule: io_cases) (simp_all add: io_simps io_raise_def)

lemma save_to_cache_returns: "fst (save_to_cache H E S url summaries total_files) = Inr ()"
  by (cases "cache_dump E (cache_file_of H S url)")
     (simp_all add: save_to_cache_def Let_def io_call_def io_simps)

lemma analyze_files_Cons:
  assumes "fst (analyze_files H E S (f # rest)) = Inr (recs, codes)"
  shows "\<exists>r recs' c codes'. fst (get_file_summary H E S f) = Inr r
           \<and> map_of r ''is_text'' \<noteq> None
           \<and> fst (analyze_files H E S rest) = Inr (recs', codes')
           \<and> recs = r # recs' \<and> codes = c @ codes' \<and> (c \<noteq> [] \<longleftrightarrow> text_and_ok r)"
proof -
  from assms obtain r where r: "fst (get_file_summary H E S f) = Inr r"
    and 1: "fst (io_bind (dict_index r ''is_text'') (\<lambda>is_text.
       io_bind (if truthy is_text \<and> \<not> truthy (dict_get r ''error'')
                then io_bind (io_call (ReadText f) (read_text E f)) (\<lambda>content. io_return [content])
                else io_return []) (\<lambda>content.
       io_bind (analyze_files H E S rest) (\<lambda>(summaries, code_contents).
       io_return (r # summaries, content @ code_contents))))) = Inr (recs, codes)"
    by (auto simp add: fst_io_bind_Inr_iff)
  from 1 obtain v where v: "map_of r ''is_text'' = Some v"
    by (cases "map_of r ''is_text''") (auto simp add: dict_index_def io_simps io_raise_def)
  with 1 obtain c where c: "fst (if truthy v \<and> \<not> truthy (dict_get r ''error'')
                then io_bind (io_call (ReadText f) (read_text E f)) (\<lambda>content. io_return [content])
                else io_return []) = Inr c"
    and 2: "fst (io_bind (analyze_files H E S rest) (\<lambda>(summaries, code_contents).
       io_return (r # summaries, c @ code_contents))) = Inr (recs, codes)"
    by (auto simp add: dict_index_def io_simps fst_io_bind_Inr_iff)
  from 2 obtain recs' codes' where 3: "fst (analyze_files H E S rest) = Inr (recs', codes')"
    and 4: "recs = r # recs'" "codes = c @ codes'"
    by (auto simp add: fst_io_bind_Inr_iff io_simps split: prod.splits)
  from c v have "c \<noteq> [] \<longleftrightarrow> text_and_ok r"
    by (cases "read_text E f")
       (auto simp add: text_and_ok_def dict_get_def io_simps fst_io_bind_Inr_iff io_call_def
             split: if_splits)
  with r v 3 4 show ?thesis by blast
qed

lemma analyze_files_shape:
  "fst (analyze_files H E S files) = Inr (recs, codes)
     \<Longrightarrow> map (\<lambda>f. fst (get_file_summary H E S f)) files = map Inr recs
         \<and> (\<forall>r \<in> set recs. map_of r ''is_text'' \<noteq> None)
         \<and> (codes \<noteq> [] \<longleftrightarrow> list_ex text_and_ok recs)"
proof (induction files arbitrary: recs codes)
  case Nil
  then show ?case by (simp add: io_simps)
next
  case (Cons f rest)
  from analyze_files_Cons [OF Cons.prems]
  obtain r recs' c codes' where h: "fst (get_file_summary H E S f) = Inr r"
      "map_of r ''is_text'' \<noteq> None" "fst (analyze_files H E S rest) = Inr (recs', codes')"
      "recs = r # recs'" "codes = c @ codes'" "c \<noteq> [] \<longleftrightarrow> text_and_ok r"
    by blast
  from Cons.IH [OF h(3)] h show ?case by auto
qed

lemma repository_record_no_is_text: "map_of (repository_record h) ''is_text'' = None"
  by (simp add: repository_record_def)

text \<open>
  C10. When an analysis misses the cache and returns, the list it returns starts with the
  records of the enumerated files, one per file and in their order, and the count it
  returns is their number. If one of these records is text and without error, exactly one
  more record follows them, last in the list: the repository record, with the path
  \<open>REPOSITORY_SUMMARY\<close> and the type \<open>html\<close>. Otherwise the list holds the records of
  the files only, and none of them is a repository record.
\<close>

theorem repository_record_appended_last:
  assumes "fst (get_cached_summaries H E S url) = Inr None"
    and "fst (analyze_repository H E S url) = Inr (summaries, total_files)"
  shows "\<exists>files recs. fst (get_all_files E S) = Inr files
           \<and> total_files = int (length files)
           \<and> map (\<lambda>f. fst (get_file_summary H E S f)) files = map Inr recs
           \<and> (\<forall>r \<in> set recs. \<forall>h. r \<noteq> repository_record h)
           \<and> (if list_ex text_and_ok recs
               then \<exists>h. summaries = recs @ [repository_record h]
                        \<and> dict_get (repository_record h) ''path'' = PStr ''REPOSITORY_SUMMARY''
                        \<and> dict_get (repository_record h) ''type'' = PStr ''html''
                        \<and> int (length summaries) = total_files + 1
               else summaries = recs)"
proof -
  from assms(1) obtain t0 where c: "get_cached_summaries H E S url = (Inr None, t0)"
    by (metis prod.collapse)
  let ?body = "\<lambda>files_to_analyze.
            let total_files = int (length files_to_analyze)
            in if total_files = 0 then io_return ([], 0)
               else io_bind (analyze_files H E S files_to_analyze) (\<lambda>(summaries, code_contents).
                    io_bind (if code_contents \<noteq> []
                             then io_bind (summarize_repo (llm S) code_contents) (\<lambda>repo_summary.
                                  io_return (summaries @ [repository_record repo_summary]))
                             else io_return summaries) (\<lambda>summaries'.
                    io_bind (save_to_cache H E S url summaries' total_files) (\<lambda>u.
                    io_return (summaries', total_files))))"
  from assms(2) c have cloned: "\<not> (repo_path S = None \<or> repo_path S = Some [])"
    by (auto simp add: analyze_repository_def io_simps io_raise_def split: if_splits)
  with assms(2) c have "fst (io_bind (get_all_files E S) ?body) = Inr (summaries, total_files)"
    by (simp add: analyze_repository_def io_simps fst_io_catch_raise)
  then obtain files where files: "fst (get_all_files E S) = Inr files"
    and b: "fst (?body files) = Inr (summaries, total_files)"
    by (auto simp add: fst_io_bind_Inr_iff)
  show ?thesis
  proof (cases "files = []")
    case True
    with b have "summaries = []" "total_files = 0" by (simp_all add: io_simps)
    with files True show ?thesis by (intro exI [of _ "[]"]) simp
  next
    case False
    with b obtain recs codes where a: "fst (analyze_files H E S files) = Inr (recs, codes)"
      and d: "fst (io_bind (if codes \<noteq> []
                             then io_bind (summarize_repo (llm S) codes) (\<lambda>repo_summary.
                                  io_return (recs @ [repository_record repo_summary]))
                             else io_return recs) (\<lambda>summaries'.
                    io_bind (save_to_cache H E S url summaries' (int (length files))) (\<lambda>u.
                    io_return (summaries', int (length files))))) = Inr (summaries, total_files)"
      by (auto simp add: Let_def fst_io_bind_Inr_iff split: prod.splits)
    from d have total: "total_files = int (length files)"
      and s: "fst (if codes \<noteq> []
                  then io_bind (summarize_repo (llm S) codes) (\<lambda>repo_summary.
                       io_return (recs @ [repository_record repo_summary]))
                  else io_return recs) = Inr summaries"
      by (auto simp add: fst_io_bind_Inr_iff io_simps)
    note shape = analyze_files_shape [OF a]
    from shape have len: "length recs = length files"
      by (metis length_map)
    from shape have norepo: "\<forall>r \<in> set recs. \<forall>h. r \<noteq> repository_record h"
      using repository_record_no_is_text by metis
    have "if list_ex text_and_ok recs
          then \<exists>h. summaries = recs @ [repository_record h]
                   \<and> dict_get (repository_record h) ''path'' = PStr ''REPOSITORY_SUMMARY''
                   \<and> dict_get (repository_record h) ''type'' = PStr ''html''
                   \<and> int (length summaries) = total_files + 1
          else summaries = recs"
    proof (cases "codes \<noteq> []")
      case True
      with s obtain h where "summaries = recs @ [repository_record h]"
        by (auto simp add: fst_io_bind_Inr_iff io_simps)
      with True shape len total show ?thesis
        by (auto simp add: dict_get_def repository_record_def)
    next
      case False
      with s have "summaries = recs" by (simp add: io_simps)
      with False shape show ?thesis by simp
    qed
    with files total shape norepo show ?thesis by blast
  qed
qed

theorem repository_record_appended_last_witness:
  "(fst (get_cached_summaries demo_lib short_env demo_scraper repo_url) = Inr None
      \<and> fst (analyze_repository demo_lib short_env demo_scraper repo_url) = Inr (short_result, 1))
   \<and> (\<exists>files recs. fst (get_all_files short_env demo_scraper) = Inr files
           \<and> 1 = int (length files)
           \<and> map (\<lambda>f. fst (get_file_summary demo_lib short_env demo_scraper f)) files = map Inr recs
           \<and> (\<forall>r \<in> set recs. \<forall>h. r \<noteq> repository_record h)
           \<and> (if list_ex text_and_ok recs
               then \<exists>h. short_result = recs @ [repository_record h]
                        \<and> dict_get (repository_record h) ''path'' = PStr ''REPOSITORY_SUMMARY''
                        \<and> dict_get (repository_record h) ''type'' = PStr ''html''
                        \<and> int (length short_result) = 1 + 1
               else short_result = recs))
   \<and> (fst (get_cached_summaries demo_lib empty_env demo_scraper repo_url) = Inr None
      \<and> fst (analyze_repository demo_lib empty_env demo_scraper repo_url) = Inr ([], 0))"
proof -
  have h: "fst (get_cached_summaries demo_lib short_env demo_scraper repo_url) = Inr None"
    "fst (analyze_repository demo_lib short_env demo_scraper repo_url) = Inr (short_result, 1)"
    by code_simp+
  have e: "fst (get_cached_summaries demo_lib empty_env demo_scraper repo_url) = Inr None
      \<and> fst (analyze_repository demo_lib empty_env demo_scraper repo_url) = Inr ([], 0)"
    by code_simp
  from repository_record_appended_last [OF h] h e show ?thesis by simp
qed

section \<open>Calls of the model with the long bound\<close>

lemma snd_io_bind:
  "snd (io_bind m f) = snd m @ (case fst m of Inl e \<Rightarrow> [] | Inr x \<Rightarrow> snd (f x))"
  by (cases m rule: io_cases) (simp_all add: io_simps)

lemma snd_io_catch:
  "snd (io_catch m h) = snd m @ (case fst m of Inl e \<Rightarrow> snd (h e) | Inr x \<Rightarrow> [])"
  by (cases m rule: io_cases) (simp_all add: io_simps)

lemma repo_calls_simps:
  "repo_calls [] = []"
  "repo_calls (t @ t') = repo_calls t @ repo_calls t'"
  "repo_calls (ev # t) = (if is_repo_call ev then ev # repo_calls t else repo_calls t)"
  "repo_calls (snd (io_return x)) = []"
  "repo_calls (snd (io_raise e)) = []"
  "repo_calls (snd (io_call ev r)) = (if is_repo_call ev then [ev] else [])"
  by (simp_all add: repo_calls_def io_return_def io_raise_def io_call_def)

lemma is_repo_call_simps:
  "\<not> is_repo_call (MagicFromFile p)" "\<not> is_repo_call (GetSize p)" "\<not> is_repo_call (Stat p)"
  "\<not> is_repo_call (ReadText p)" "\<not> is_repo_call (Walk p)" "\<not> is_repo_call (CacheExists p)"
  "\<not> is_repo_call (CacheLoad p)" "\<not> is_repo_call (CacheDump p ss n)"
  "\<not> is_repo_call (ModelCall chunk 46 30)" "is_repo_call (ModelCall chunk 500 100)"
  by (simp_all add: is_repo_call_def)

lemma repo_calls_bind:
  "repo_calls (snd (io_bind m f))
     = repo_calls (snd m) @ (case fst m of Inl e \<Rightarrow> [] | Inr x \<Rightarrow> repo_calls (snd (f x)))"
  by (simp add: snd_io_bind repo_calls_simps split: sum.splits)

lemma repo_calls_catch:
  "repo_calls (snd (io_catch m h))
     = repo_calls (snd m) @ (case fst m of Inl e \<Rightarrow> repo_calls (snd (h e)) | Inr x \<Rightarrow> [])"
  by (simp add: snd_io_catch repo_calls_simps split: sum.splits)

lemmas quiet_simps = repo_calls_bind repo_calls_catch repo_calls_simps is_repo_call_simps

lemma summarize_chunks_quiet: "repo_calls (snd (summarize_chunks L chunks)) = []"
  by (induction chunks) (simp_all add: quiet_simps split: sum.splits)

lemma summarize_code_quiet: "repo_calls (snd (summarize_code L code)) = []"
  by (simp add: summarize_code_def Let_def quiet_simps summarize_chunks_quiet split: sum.splits)

lemma fst_summarize_code: "fst (summarize_code L code) = Inr (summary_of L code)"
  using summarize_code_returns [of L code] by (auto simp add: summary_of_def)

lemma file_summaries_loop_eq:
  "fst (file_summaries_loop L code_list) = Inr (recomputed_summaries L code_list)"
  by (induction code_list)
     (auto simp add: recomputed_summaries_def fst_io_bind_Inr_iff fst_summarize_code io_simps)

lemma file_summaries_loop_quiet: "repo_calls (snd (file_summaries_loop L code_list)) = []"
  by (induction code_list) (simp_all add: quiet_simps summarize_code_quiet split: sum.splits)

lemma summarize_repo_calls:
  "repo_calls (snd (summarize_repo L code_list))
     = (if recomputed_summaries L code_list = [] then []
        else [ModelCall (py_join [NL, NL] (recomputed_summaries L code_list)) 500 100])"
  by (simp add: summarize_repo_def Let_def quiet_simps file_summaries_loop_quiet
        file_summaries_loop_eq split: sum.splits)

lemma summarize_repo_no_valid_files:
  "recomputed_summaries L code_list = [] \<Longrightarrow> fst (summarize_repo L code_list) = Inr no_valid_files"
proof -
  assume e: "recomputed_summaries L code_list = []"
  obtain t where "file_summaries_loop L code_list = (Inr (recomputed_summaries L code_list), t)"
    using file_summaries_loop_eq [of L code_list] by (metis prod.collapse)
  with e show ?thesis by (simp add: summarize_repo_def io_simps)
qed

lemma should_skip_file_quiet: "repo_calls (snd (should_skip_file E p)) = []"
  by (simp add: should_skip_file_def is_text_file_eq size_over_limit_eq quiet_simps)

lemma keep_files_quiet: "repo_calls (snd (keep_files E files)) = []"
  by (induction files) (simp_all add: quiet_simps should_skip_file_quiet split: sum.splits)

lemma get_all_files_quiet: "repo_calls (snd (get_all_files E S)) = []"
  by (simp add: get_all_files_def quiet_simps keep_files_quiet split: option.splits sum.splits)

lemma text_file_summary_quiet: "repo_calls (snd (text_file_summary S p d content)) = []"
  by (simp add: text_file_summary_def Let_def quiet_simps summarize_code_quiet split: sum.splits)

lemma get_file_summary_quiet: "repo_calls (snd (get_file_summary H E S p)) = []"
  by (simp add: get_file_summary_def Let_def get_file_type_eq is_text_file_eq quiet_simps
        text_file_summary_quiet split: sum.splits)

lemma analyze_files_quiet: "repo_calls (snd (analyze_files H E S files)) = []"
  by (induction files)
     (simp_all add: quiet_simps get_file_summary_quiet dict_index_def
        split: sum.splits option.splits prod.splits)

lemma get_cached_summaries_quiet: "repo_calls (snd (get_cached_summaries H E S url)) = []"
  by (simp add: get_cached_summaries_def Let_def doc_summaries_def doc_total_files_def quiet_simps
        split: sum.splits cache_doc.splits option.splits)

lemma save_to_cache_quiet: "repo_calls (snd (save_to_cache H E S url ss n)) = []"
  by (simp add: save_to_cache_def Let_def quiet_simps split: sum.splits)

lemma analyze_repository_calls:
  "repo_calls (snd (analyze_repository H E S url)) = []
   \<or> (\<exists>files recs codes. fst (get_all_files E S) = Inr files
         \<and> fst (analyze_files H E S files) = Inr (recs, codes)
         \<and> recomputed_summaries (llm S) codes \<noteq> []
         \<and> repo_calls (snd (analyze_repository H E S url))
             = [ModelCall (py_join [NL, NL] (recomputed_summaries (llm S) codes)) 500 100])"
  by (auto simp add: analyze_repository_def Let_def quiet_simps get_cached_summaries_quiet
        get_all_files_quiet analyze_files_quiet save_to_cache_quiet summarize_repo_calls
        split: sum.splits option.splits prod.splits if_splits)

section \<open>The contents that reach the repository summary\<close>

lemma text_file_summary_keeps:
  "\<exists>rec t. text_file_summary S p d content = (Inr rec, t)
     \<and> map_of rec ''is_text'' = map_of d ''is_text'' \<and> map_of rec ''error'' = map_of d ''error''"
proof (cases "length (split_chr NL content) \<le> 3")
  case True
  then show ?thesis by (simp add: text_file_summary_short map_of_dict_set)
next
  case long: False
  show ?thesis
  proof (cases "loc_of content \<le> 5")
    case True
    with long show ?thesis by (simp add: text_file_summary_small map_of_dict_set)
  next
    case False
    obtain sm t where "summarize_code (llm S) content = (Inr sm, t)"
      using summarize_code_returns [of "llm S" content] by (metis prod.collapse)
    with False long show ?thesis by (simp add: text_file_summary_large map_of_dict_set)
  qed
qed

lemma get_file_summary_text_and_ok:
  assumes "fst (get_file_summary H E S f) = Inr r"
  shows "text_and_ok r \<longleftrightarrow> readable_text E f"
proof (cases "stat_size E f")
  case (Inl e)
  with assms show ?thesis
    by (auto simp add: get_file_summary_def io_simps text_and_ok_def dict_get_def readable_text_def)
next
  case stat: (Inr n)
  show ?thesis
  proof (cases "is_text_mime (detected_type E f)")
    case False
    with stat assms show ?thesis
      by (auto simp add: get_file_summary_not_text base_record_def text_and_ok_def dict_get_def
            readable_text_def)
  next
    case istext: True
    show ?thesis
    proof (cases "read_text E f")
      case (Inl e)
      with stat istext assms show ?thesis
        by (auto simp add: get_file_summary_stat_ok get_file_type_eq is_text_file_eq io_simps
              text_and_ok_def dict_get_def readable_text_def)
    next
      case (Inr content)
      obtain rec t where
        "text_file_summary S f (base_record H E S f n) content = (Inr rec, t)"
        and k: "map_of rec ''is_text'' = map_of (base_record H E S f n) ''is_text''"
          "map_of rec ''error'' = map_of (base_record H E S f n) ''error''"
        using text_file_summary_keeps by blast
      with stat istext Inr have "get_file_summary H E S f
          = (Inr rec, [Stat f, MagicFromFile f, MagicFromFile f, ReadText f] @ t)"
        by (intro get_file_summary_text) simp_all
      with assms have "r = rec" by simp
      with k stat istext Inr show ?thesis
        by (simp add: base_record_def text_and_ok_def dict_get_def readable_text_def)
    qed
  qed
qed

lemma analyze_files_Cons_codes:
  assumes "fst (analyze_files H E S (f # rest)) = Inr (recs, codes)"
  shows "\<exists>c codes'. fst (analyze_files H E S rest) = Inr (tl recs, codes')
           \<and> codes = c @ codes'
           \<and> map Inr c = (if readable_text E f then [read_text E f] else [])"
proof -
  from assms obtain r where r: "fst (get_file_summary H E S f) = Inr r"
    and 1: "fst (io_bind (dict_index r ''is_text'') (\<lambda>is_text.
       io_bind (if truthy is_text \<and> \<not> truthy (dict_get r ''error'')
                then io_bind (io_call (ReadText f) (read_text E f)) (\<lambda>content. io_return [content])
                else io_return []) (\<lambda>content.
       io_bind (analyze_files H E S rest) (\<lambda>(summaries, code_contents).
       io_return (r # summaries, content @ code_contents))))) = Inr (recs, codes)"
    by (auto simp add: fst_io_bind_Inr_iff)
  from 1 obtain v where v: "map_of r ''is_text'' = Some v"
    by (cases "map_of r ''is_text''") (auto simp add: dict_index_def io_simps io_raise_def)
  with 1 obtain c where c: "fst (if truthy v \<and> \<not> truthy (dict_get r ''error'')
                then io_bind (io_call (ReadText f) (read_text E f)) (\<lambda>content. io_return [content])
                else io_return []) = Inr c"
    and 2: "fst (io_bind (analyze_files H E S rest) (\<lambda>(summaries, code_contents).
       io_return (r # summaries, c @ code_contents))) = Inr (recs, codes)"
    by (auto simp add: dict_index_def io_simps fst_io_bind_Inr_iff)
  from 2 obtain recs' codes' where 3: "fst (analyze_files H E S rest) = Inr (recs', codes')"
    and 4: "recs = r # recs'" "codes = c @ codes'"
    by (auto simp add: fst_io_bind_Inr_iff io_simps split: prod.splits)
  have ok: "text_and_ok r \<longleftrightarrow> readable_text E f"
    using r by (rule get_file_summary_text_and_ok)
  from c v have "map Inr c = (if text_and_ok r then [read_text E f] else [])"
    by (cases "read_text E f")
       (auto simp add: text_and_ok_def dict_get_def io_simps fst_io_bind_Inr_iff io_call_def
             split: if_splits)
  with ok 3 4 show ?thesis by auto
qed

lemma analyze_files_codes:
  "fst (analyze_files H E S files) = Inr (recs, codes)
     \<Longrightarrow> map Inr codes = map (read_text E) (filter (readable_text E) files)"
proof (induction files arbitrary: recs codes)
  case Nil
  then show ?case by (simp add: io_simps)
next
  case (Cons f rest)
  from analyze_files_Cons_codes [OF Cons.prems]
  obtain c codes' where h: "fst (analyze_files H E S rest) = Inr (tl recs, codes')"
      "codes = c @ codes'" "map Inr c = (if readable_text E f then [read_text E f] else [])"
    by blast
  from Cons.IH [OF h(1)] h(2,3) show ?case by simp
qed

lemma analyze_repository_text_calls:
  "repo_calls (snd (analyze_repository H E S url)) = []
   \<or> (\<exists>files codes. fst (get_all_files E S) = Inr files
         \<and> map Inr codes = map (read_text E) (filter (readable_text E) files)
         \<and> recomputed_summaries (llm S) codes \<noteq> []
         \<and> repo_calls (snd (analyze_repository H E S url))
             = [ModelCall (py_join [NL, NL] (recomputed_summaries (llm S) codes)) 500 100])"
  using analyze_repository_calls [of H E S url] analyze_files_codes [of H E S] by blast

lemma analyze_repository_returning_calls:
  assumes "fst (get_cached_summaries H E S url) = Inr None"
    and "fst (analyze_repository H E S url) = Inr (summaries, total_files)"
  shows "\<exists>files codes. fst (get_all_files E S) = Inr files
           \<and> map Inr codes = map (read_text E) (filter (readable_text E) files)
           \<and> repo_calls (snd (analyze_repository H E S url))
               = (if recomputed_summaries (llm S) codes = [] then []
                  else [ModelCall (py_join [NL, NL] (recomputed_summaries (llm S) codes)) 500 100])"
proof -
  from assms have cloned: "\<not> (repo_path S = None \<or> repo_path S = Some [])"
    by (auto simp add: analyze_repository_def fst_io_bind_Inr_iff io_simps io_raise_def
          split: if_splits)
  with assms obtain files where files: "fst (get_all_files E S) = Inr files"
    by (auto simp add: analyze_repository_def fst_io_bind_Inr_iff fst_io_catch_raise)
  show ?thesis
  proof (cases "files = []")
    case True
    with assms(1) cloned files
    have "repo_calls (snd (analyze_repository H E S url)) = []"
      by (simp add: analyze_repository_def Let_def quiet_simps get_cached_summaries_quiet
            get_all_files_quiet split: sum.splits)
    with files True show ?thesis
      by (intro exI [of _ "[]"]) (simp add: recomputed_summaries_def)
  next
    case False
    with assms cloned files obtain recs codes
      where a: "fst (analyze_files H E S files) = Inr (recs, codes)"
      by (auto simp add: analyze_repository_def Let_def fst_io_bind_Inr_iff fst_io_catch_raise
            split: prod.splits)
    from cloned obtain root where cl: "repo_path S = Some root" "root \<noteq> []"
      by auto
    obtain t0 where c0: "get_cached_summaries H E S url = (Inr None, t0)"
      using assms(1) by (metis prod.collapse)
    obtain t1 where c1: "get_all_files E S = (Inr files, t1)"
      using files by (metis prod.collapse)
    obtain t2 where c2: "analyze_files H E S files = (Inr (recs, codes), t2)"
      using a by (metis prod.collapse)
    obtain h t3 where c3: "summarize_repo (llm S) codes = (Inr h, t3)"
      using summarize_repo_returns [of "llm S" codes] by (metis prod.collapse)
    have q: "repo_calls t0 = []" "repo_calls t1 = []" "repo_calls t2 = []"
      using get_cached_summaries_quiet [of H E S url] get_all_files_quiet [of E S]
        analyze_files_quiet [of H E S files] c0 c1 c2 by simp_all
    have q3: "repo_calls t3
               = (if recomputed_summaries (llm S) codes = [] then []
                  else [ModelCall (py_join [NL, NL] (recomputed_summaries (llm S) codes)) 500 100])"
      using summarize_repo_calls [of "llm S" codes] c3 by simp
    have "repo_calls (snd (analyze_repository H E S url))
               = (if recomputed_summaries (llm S) codes = [] then []
                  else [ModelCall (py_join [NL, NL] (recomputed_summaries (llm S) codes)) 500 100])"
    proof (cases "codes = []")
      case True
      obtain t4 where c4: "save_to_cache H E S url recs (int (length files)) = (Inr (), t4)"
        using save_to_cache_returns [of H E S url recs "int (length files)"]
        by (metis prod.collapse)
      have q4: "repo_calls t4 = []"
        using save_to_cache_quiet [of H E S url recs "int (length files)"] c4 by simp
      from cl False True c0 c1 c2 c4
      have "snd (analyze_repository H E S url) = t0 @ t1 @ t2 @ t4"
        by (simp add: analyze_repository_def Let_def io_simps)
      with q q4 True show ?thesis
        by (simp add: repo_calls_simps recomputed_summaries_def)
    next
      case nonempty: False
      obtain t4 where c4: "save_to_cache H E S url (recs @ [repository_record h])
                             (int (length files)) = (Inr (), t4)"
        using save_to_cache_returns [of H E S url "recs @ [repository_record h]" "int (length files)"]
        by (metis prod.collapse)
      have q4: "repo_calls t4 = []"
        using save_to_cache_quiet [of H E S url "recs @ [repository_record h]" "int (length files)"]
          c4 by simp
      from cl False nonempty c0 c1 c2 c3 c4
      have "snd (analyze_repository H E S url) = t0 @ t1 @ t2 @ t3 @ t4"
        by (simp add: analyze_repository_def Let_def io_simps)
      with q q3 q4 show ?thesis
        by (simp add: repo_calls_simps)
    qed
    with files analyze_files_codes [OF a] show ?thesis by blast
  qed
qed

text \<open>
  C3 (as amended). In every run of \<open>analyze_repository\<close> the model is called with the long
  bound at most once. The text of that call is the double-newline join of the summaries
  that \<open>summarize_repo\<close> computes again, with \<open>summarize_code\<close>, from the raw content
  of every enumerated file that is text and is processed without error, whatever its line
  count, its LOC and the summary stored in its record, leaving out the empty ones and the
  error summaries. In a run that misses the cache and returns, the call is made exactly
  when one such summary is left. When none is left, \<open>summarize_repo\<close> returns the fixed
  notice and does not make the call.
\<close>

theorem repository_summary_call:
  "length (repo_calls (snd (analyze_repository H E S url))) \<le> 1
   \<and> (repo_calls (snd (analyze_repository H E S url)) = []
      \<or> (\<exists>files codes. fst (get_all_files E S) = Inr files
            \<and> map Inr codes = map (read_text E) (filter (readable_text E) files)
            \<and> recomputed_summaries (llm S) codes \<noteq> []
            \<and> repo_calls (snd (analyze_repository H E S url))
                = [ModelCall (py_join [NL, NL] (recomputed_summaries (llm S) codes)) 500 100]))
   \<and> (fst (get_cached_summaries H E S url) = Inr None
        \<and> fst (analyze_repository H E S url) = Inr (summaries, total_files)
       \<longrightarrow> (\<exists>files codes. fst (get_all_files E S) = Inr files
              \<and> map Inr codes = map (read_text E) (filter (readable_text E) files)
              \<and> repo_calls (snd (analyze_repository H E S url))
                  = (if recomputed_summaries (llm S) codes = [] then []
                     else [ModelCall (py_join [NL, NL] (recomputed_summaries (llm S) codes))
                             500 100])))
   \<and> fst (summarize_code L code) = Inr (summary_of L code)
   \<and> recomputed_summaries L code_list
       = filter (\<lambda>s. s \<noteq> [] \<and> s \<noteq> error_summary) (map (summary_of L) code_list)
   \<and> repo_calls (snd (summarize_repo L code_list))
       = (if recomputed_summaries L code_list = [] then []
          else [ModelCall (py_join [NL, NL] (recomputed_summaries L code_list)) 500 100])
   \<and> (recomputed_summaries L code_list = []
       \<longrightarrow> fst (summarize_repo L code_list) = Inr no_valid_files)"
proof (intro conjI impI)
  show "length (repo_calls (snd (analyze_repository H E S url))) \<le> 1"
    using analyze_repository_calls [of H E S url] by auto
  show "repo_calls (snd (analyze_repository H E S url)) = []
      \<or> (\<exists>files codes. fst (get_all_files E S) = Inr files
            \<and> map Inr codes = map (read_text E) (filter (readable_text E) files)
            \<and> recomputed_summaries (llm S) codes \<noteq> []
            \<and> repo_calls (snd (analyze_repository H E S url))
                = [ModelCall (py_join [NL, NL] (recomputed_summaries (llm S) codes)) 500 100])"
    by (rule analyze_repository_text_calls)
  show "\<exists>files codes. fst (get_all_files E S) = Inr files
              \<and> map Inr codes = map (read_text E) (filter (readable_text E) files)
              \<and> repo_calls (snd (analyze_repository H E S url))
                  = (if recomputed_summaries (llm S) codes = [] then []
                     else [ModelCall (py_join [NL, NL] (recomputed_summaries (llm S) codes))
                             500 100])"
    if "fst (get_cached_summaries H E S url) = Inr None
        \<and> fst (analyze_repository H E S url) = Inr (summaries, total_files)"
    using that by (intro analyze_repository_returning_calls) simp_all
  show "fst (summarize_code L code) = Inr (summary_of L code)"
    by (rule fst_summarize_code)
  show "recomputed_summaries L code_list
       = filter (\<lambda>s. s \<noteq> [] \<and> s \<noteq> error_summary) (map (summary_of L) code_list)"
    by (simp add: recomputed_summaries_def)
  show "repo_calls (snd (summarize_repo L code_list))
       = (if recomputed_summaries L code_list = [] then []
          else [ModelCall (py_join [NL, NL] (recomputed_summaries L code_list)) 500 100])"
    by (rule summarize_repo_calls)
  show "fst (summarize_repo L code_list) = Inr no_valid_files"
    if "recomputed_summaries L code_list = []"
    using that by (rule summarize_repo_no_valid_files)
qed

theorem repository_summary_call_witness:
  "(fst (get_cached_summaries demo_lib small_env demo_scraper repo_url) = Inr None
      \<and> fst (analyze_repository demo_lib small_env demo_scraper repo_url)
          = Inr (fst (projr (fst (analyze_repository demo_lib small_env demo_scraper repo_url))), 1))
   \<and> fst (get_all_files small_env demo_scraper) = Inr [''/tmp/r/a.py'']
   \<and> map (read_text small_env) (filter (readable_text small_env) [''/tmp/r/a.py''])
       = map Inr [four_lines]
   \<and> recomputed_summaries demo_llm [four_lines] = [''summary of a = 1 b '']
   \<and> repo_calls (snd (analyze_repository demo_lib small_env demo_scraper repo_url))
       = [ModelCall ''summary of a = 1 b '' 500 100]
   \<and> recomputed_summaries failing_llm [two_lines] = []
   \<and> fst (summarize_repo failing_llm [two_lines]) = Inr no_valid_files
   \<and> repo_calls (snd (summarize_repo failing_llm [two_lines])) = []"
proof -
  have m: "fst (get_cached_summaries demo_lib small_env demo_scraper repo_url) = Inr None
      \<and> fst (analyze_repository demo_lib small_env demo_scraper repo_url)
          = Inr (fst (projr (fst (analyze_repository demo_lib small_env demo_scraper repo_url))), 1)"
    by code_simp
  have f: "fst (get_all_files small_env demo_scraper) = Inr [''/tmp/r/a.py'']"
    and c: "map (read_text small_env) (filter (readable_text small_env) [''/tmp/r/a.py''])
       = map Inr [four_lines]"
    and d: "recomputed_summaries demo_llm [four_lines] = [''summary of a = 1 b '']"
    and h: "recomputed_summaries failing_llm [two_lines] = []"
    by code_simp+
  have l: "llm demo_scraper = demo_llm"
    by (simp add: demo_scraper_def)
  note a = repository_summary_call
    [where L = failing_llm and code_list = "[two_lines]" and code = two_lines and H = demo_lib
       and E = small_env and S = demo_scraper and url = repo_url and total_files = 1
       and summaries = "fst (projr (fst (analyze_repository demo_lib small_env demo_scraper repo_url)))"]
  from a m obtain files codes where
    g: "fst (get_all_files small_env demo_scraper) = Inr files"
       "map Inr codes = map (read_text small_env) (filter (readable_text small_env) files)"
       "repo_calls (snd (analyze_repository demo_lib small_env demo_scraper repo_url))
          = (if recomputed_summaries (llm demo_scraper) codes = [] then []
             else [ModelCall (py_join [NL, NL] (recomputed_summaries (llm demo_scraper) codes))
                     500 100])"
    by blast
  from g(1) f have "files = [''/tmp/r/a.py'']" by simp
  with g(2) c have "codes = [four_lines]"
    by (metis inj_Inr inj_map_eq_map)
  with g(3) d l have r: "repo_calls (snd (analyze_repository demo_lib small_env demo_scraper repo_url))
       = [ModelCall ''summary of a = 1 b '' 500 100]"
    by simp
  from a h have "fst (summarize_repo failing_llm [two_lines]) = Inr no_valid_files"
    and "repo_calls (snd (summarize_repo failing_llm [two_lines])) = []"
    by simp_all
  with m f c d r h show ?thesis by blast
qed

text \<open>
  The record of the only file has no summary at all, and the model is called with the
  long bound all the same, on a summary made for that call.
\<close>

theorem repository_summary_without_file_summary:
  "fst (get_file_summary demo_lib small_env demo_scraper ''/tmp/r/a.py'')
     = Inr [(''path'', PStr ''a.py''), (''size'', PInt 23), (''type'', PStr ''text/plain''),
            (''is_text'', PBool True), (''summary'', PNone), (''loc'', PInt 4),
            (''language'', PStr ''Python'')]
   \<and> map (\<lambda>r. dict_get r ''summary'')
         (butlast (fst (projr (fst (analyze_repository demo_lib small_env demo_scraper repo_url)))))
       = [PNone]
   \<and> repo_calls (snd (analyze_repository demo_lib small_env demo_scraper repo_url))
       = [ModelCall ''summary of a = 1 b '' 500 100]"
  by code_simp

section \<open>Exceptions of the model\<close>

lemma summarize_repo_long_call_raises:
  assumes "recomputed_summaries L code_list \<noteq> []"
    and "summarizer L (py_join [NL, NL] (recomputed_summaries L code_list)) 500 100 = Inl e"
  shows "fst (summarize_repo L code_list)
           = Inr (''<p>Error generating repository summary: '' @ str_of_error e @ ''</p>'')"
proof -
  obtain t where "file_summaries_loop L code_list = (Inr (recomputed_summaries L code_list), t)"
    using file_summaries_loop_eq [of L code_list] by (metis prod.collapse)
  with assms show ?thesis by (simp add: summarize_repo_def Let_def io_simps)
qed

text \<open>
  C9. An exception of the model in a chunk call is caught in \<open>summarize_code\<close> and
  becomes the fixed error summary; an exception in the call with the long bound is caught in
  \<open>summarize_repo\<close> and becomes an error paragraph. Neither \<open>summarize_code\<close> nor
  \<open>summarize_repo\<close> ever raises, whatever the model and the tokenizer do.
\<close>

theorem summarize_never_raises:
  "(\<exists>s. fst (summarize_code L code) = Inr s)
   \<and> (\<exists>s. fst (summarize_repo L code_list) = Inr s)
   \<and> (py_strip code \<noteq> [] \<and> 1 < length (split_chr NL (preprocess_code code))
        \<and> chunk \<in> set (chunk_text (tokenizer L) (preprocess_code code) default_max_length)
        \<and> summarizer L chunk 46 30 = Inl e
       \<longrightarrow> fst (summarize_code L code) = Inr error_summary)
   \<and> (recomputed_summaries L code_list \<noteq> []
        \<and> summarizer L (py_join [NL, NL] (recomputed_summaries L code_list)) 500 100 = Inl e
       \<longrightarrow> fst (summarize_repo L code_list)
             = Inr (''<p>Error generating repository summary: '' @ str_of_error e @ ''</p>''))"
proof (intro conjI impI)
  show "\<exists>s. fst (summarize_code L code) = Inr s" by (rule summarize_code_returns)
  show "\<exists>s. fst (summarize_repo L code_list) = Inr s" by (rule summarize_repo_returns)
next
  assume h: "py_strip code \<noteq> [] \<and> 1 < length (split_chr NL (preprocess_code code))
        \<and> chunk \<in> set (chunk_text (tokenizer L) (preprocess_code code) default_max_length)
        \<and> summarizer L chunk 46 30 = Inl e"
  then obtain e' where
    "fst (summarize_chunks L (chunk_text (tokenizer L) (preprocess_code code) default_max_length)) = Inl e'"
    using summarize_chunks_raises by blast
  then obtain t where
    "summarize_chunks L (chunk_text (tokenizer L) (preprocess_code code) default_max_length) = (Inl e', t)"
    by (metis prod.collapse)
  with h show "fst (summarize_code L code) = Inr error_summary"
    by (simp add: summarize_code_def Let_def io_simps)
next
  assume "recomputed_summaries L code_list \<noteq> []
        \<and> summarizer L (py_join [NL, NL] (recomputed_summaries L code_list)) 500 100 = Inl e"
  then show "fst (summarize_repo L code_list)
             = Inr (''<p>Error generating repository summary: '' @ str_of_error e @ ''</p>'')"
    by (intro summarize_repo_long_call_raises) simp_all
qed

theorem summarize_never_raises_witness:
  "(py_strip two_lines \<noteq> []
      \<and> 1 < length (split_chr NL (preprocess_code two_lines))
      \<and> ''x = 1 y = 2'' \<in> set (chunk_text (tokenizer failing_llm)
            (preprocess_code two_lines) default_max_length)
      \<and> summarizer failing_llm ''x = 1 y = 2'' 46 30 = Inl (RuntimeError ''index out of range in self''))
   \<and> fst (summarize_code failing_llm two_lines) = Inr error_summary
   \<and> (recomputed_summaries long_failing_llm [two_lines] \<noteq> []
      \<and> summarizer long_failing_llm (py_join [NL, NL] (recomputed_summaries long_failing_llm [two_lines]))
           500 100 = Inl (RuntimeError ''out of memory''))
   \<and> fst (summarize_repo long_failing_llm [two_lines])
       = Inr ''<p>Error generating repository summary: out of memory</p>''"
proof -
  have h: "py_strip two_lines \<noteq> []
      \<and> 1 < length (split_chr NL (preprocess_code two_lines))
      \<and> ''x = 1 y = 2'' \<in> set (chunk_text (tokenizer failing_llm)
            (preprocess_code two_lines) default_max_length)
      \<and> summarizer failing_llm ''x = 1 y = 2'' 46 30 = Inl (RuntimeError ''index out of range in self'')"
    by code_simp
  have g: "recomputed_summaries long_failing_llm [two_lines] \<noteq> []
      \<and> summarizer long_failing_llm (py_join [NL, NL] (recomputed_summaries long_failing_llm [two_lines]))
           500 100 = Inl (RuntimeError ''out of memory'')"
    by code_simp
  from summarize_never_raises [of failing_llm two_lines "[]" "''x = 1 y = 2''"
      "RuntimeError ''index out of range in self''"] h
  have a: "fst (summarize_code failing_llm two_lines) = Inr error_summary" by blast
  from summarize_never_raises [of long_failing_llm two_lines "[two_lines]" "''x = 1 y = 2''"
      "RuntimeError ''out of memory''"] g
  have "fst (summarize_repo long_failing_llm [two_lines])
       = Inr (''<p>Error generating repository summary: '' @ str_of_error (RuntimeError ''out of memory'') @ ''</p>'')"
    by blast
  then have b: "fst (summarize_repo long_failing_llm [two_lines])
       = Inr ''<p>Error generating repository summary: out of memory</p>''"
    by simp
  from h g a b show ?thesis by blast
qed

end
